theory Spec2Isabelle
  imports
    Main
    "HOL-Library.Multiset"
    "HOL-Library.AList"
    "HOL-Library.Char_ord"
    "HOL-Library.List_Lexorder"
    "HOL-Library.Word"
begin

section \<open>The mock server: data model\<close>

text \<open>
  A shallow embedding of \<^verbatim>\<open>server.go\<close>. Every struct of the source is a record, every
  closure is a datatype value holding the variables it captures, together with a function
  that runs its body, and every mutable variable (the global \<^verbatim>\<open>routeChain\<close>, the
  \<^verbatim>\<open>http.ResponseWriter\<close> of a request, the scan index of a dispatch) is passed explicitly.
  Calls of \<^verbatim>\<open>log.Printf\<close> and \<^verbatim>\<open>log.Println\<close> have no effect on any value and are left out.
\<close>

definition MAX_DIRECTORY_COUNT :: nat where
  "MAX_DIRECTORY_COUNT = 20"

definition SERVER_NAME :: string where
  "SERVER_NAME = ''mock-server''"

text \<open>
  Errors are values. \<open>MaxDirectoryCount\<close> is the error of line 180, \<open>InvalidJson\<close> that of
  line 215; \<open>UnmarshalTypeError\<close> (the JSON value met, the Go type wanted) is what
  \<^verbatim>\<open>json.Unmarshal\<close> returns on a document of the wrong shape; \<open>OsError\<close> is an error
  of \<^verbatim>\<open>os.ReadDir\<close> or \<^verbatim>\<open>os.ReadFile\<close>, with its message; \<open>MarshalError\<close> is an error of
  \<^verbatim>\<open>json.Marshal\<close>; \<open>Panic\<close> is a panic of \<^verbatim>\<open>mux.HandleFunc\<close>, with the pattern it
  refused; \<open>OtherError\<close> is any other value of type \<^verbatim>\<open>error\<close>.
\<close>

datatype error =
    MaxDirectoryCount nat
  | InvalidJson string
  | UnmarshalTypeError string string
  | OsError string
  | MarshalError string
  | Panic string
  | OtherError string

text \<open>
  A \<^verbatim>\<open>float64\<close> is its 64 bits (\<^verbatim>\<open>math.Float64bits\<close>): every value of the Go type is one
  of them, the two zeros, the infinities and the NaNs included. The program does no
  arithmetic on a \<^verbatim>\<open>float64\<close>; it only has the standard library read and print them.
\<close>

type_synonym float64 = "64 word"

text \<open>
  A value of type \<^verbatim>\<open>interface{}\<close> as \<^verbatim>\<open>encoding/json\<close> produces it: \<^verbatim>\<open>nil\<close>, a
  \<^verbatim>\<open>bool\<close>, a \<^verbatim>\<open>float64\<close>, a \<^verbatim>\<open>string\<close>, a \<^verbatim>\<open>[]interface{}\<close> or a
  \<^verbatim>\<open>map[string]interface{}\<close>. A Go map is an association list with distinct keys; the
  order of the list carries no meaning (both printers below sort the keys).
\<close>

datatype go_value =
    VNil
  | VBool bool
  | VFloat64 float64
  | VString string
  | VSlice "go_value list"
  | VMap "(string \<times> go_value) list"

record MockResponseDefinition =
  Body :: go_value
  Headers :: "(string \<times> string) list"
  StatusCode :: int

record MockDefinition =
  Endpoint :: string
  Method :: string
  Response :: MockResponseDefinition

text \<open>The part of \<^verbatim>\<open>*http.Request\<close> the program reads.\<close>

record Request =
  r_Method :: string
  r_Pattern :: string

text \<open>
  A JSON document, as the grammar of \<^verbatim>\<open>encoding/json\<close> reads it: the members of an object
  in document order (a key may repeat), strings unquoted, a number as the text of its
  literal (\<^verbatim>\<open>201\<close>, \<^verbatim>\<open>1.5\<close>, \<^verbatim>\<open>-0\<close>, \<^verbatim>\<open>1e21\<close>).
\<close>

datatype json =
    JNull
  | JBool bool
  | JNumber string
  | JString string
  | JArray "json list"
  | JObject "(string \<times> json) list"

section \<open>What the program takes from outside\<close>

text \<open>
  The operating system and those functions of the standard library whose results the
  program only passes on. They are parameters of the model: the general theorems hold
  whatever they are, and the examples fix them.
  \<^item> \<^verbatim>\<open>os.ReadDir\<close> and \<^verbatim>\<open>os.ReadFile\<close> return their result or the message of their
    error; \<^verbatim>\<open>path.Join\<close> joins a directory and a name.
  \<^item> \<open>json_parse content\<close> is \<open>None\<close> when \<^verbatim>\<open>json.Valid(content)\<close> is false, and
    otherwise the document the bytes spell.
  \<^item> \<open>strconv_ParseFloat\<close> is \<^verbatim>\<open>strconv.ParseFloat(s, 64)\<close>, \<open>None\<close> when it returns an
    error (the number is out of range); \<open>strconv_FormatFloat\<close> is
    \<^verbatim>\<open>strconv.FormatFloat(f, 'g', -1, 64)\<close>, which is how \<^verbatim>\<open>fmt\<close> prints a \<^verbatim>\<open>float64\<close>
    under \<^verbatim>\<open>%v\<close>; \<open>json_floatEncoder\<close> is the float encoder of \<^verbatim>\<open>encoding/json\<close>,
    \<open>None\<close> when it refuses the value (a NaN or an infinity).
  \<^item> \<open>mux_accepts registered pattern\<close> tells whether \<^verbatim>\<open>ServeMux.HandleFunc\<close> takes the
    pattern after the patterns \<open>registered\<close>; it panics when the pattern is malformed or
    conflicts with one of them.
\<close>

record DirEntry =
  Name :: string
  IsDir :: bool

record platform =
  os_ReadDir :: "string \<Rightarrow> string + DirEntry list"
  os_ReadFile :: "string \<Rightarrow> string + string"
  path_Join :: "string \<Rightarrow> string \<Rightarrow> string"
  json_parse :: "string \<Rightarrow> json option"
  strconv_ParseFloat :: "string \<Rightarrow> float64 option"
  strconv_FormatFloat :: "float64 \<Rightarrow> string"
  json_floatEncoder :: "float64 \<Rightarrow> string option"
  mux_accepts :: "string list \<Rightarrow> string \<Rightarrow> bool"

section \<open>The response writer\<close>

text \<open>
  \<^verbatim>\<open>http.Header.Add\<close> stores a value under the canonical spelling of the name
  (\<^verbatim>\<open>textproto.CanonicalMIMEHeaderKey\<close>): when every byte of the name is a token byte of
  HTTP, the first letter and every letter after a hyphen is made a capital and every other
  letter small; a name with any other byte (a space, say) is kept as it is.
\<close>

definition validHeaderFieldByte :: "char \<Rightarrow> bool" where
  "validHeaderFieldByte c =
     (let b = (of_char c :: nat) in
      (0x30 \<le> b \<and> b \<le> 0x39) \<or> (0x41 \<le> b \<and> b \<le> 0x5A) \<or> (0x61 \<le> b \<and> b \<le> 0x7A) \<or>
      c \<in> set [CHR ''!'', CHR ''#'', CHR ''$'', CHR ''%'', CHR ''&'', CHR 0x27, CHR ''*'',
                 CHR ''+'', CHR ''-'', CHR ''.'', CHR ''^'', CHR ''_'', CHR 0x60, CHR ''|'',
                 CHR ''~''])"

definition to_upper :: "char \<Rightarrow> char" where
  "to_upper c =
     (case map_of (zip ''abcdefghijklmnopqrstuvwxyz'' ''ABCDEFGHIJKLMNOPQRSTUVWXYZ'') c of
        Some capital \<Rightarrow> capital
      | None \<Rightarrow> c)"

definition to_lower :: "char \<Rightarrow> char" where
  "to_lower c =
     (case map_of (zip ''ABCDEFGHIJKLMNOPQRSTUVWXYZ'' ''abcdefghijklmnopqrstuvwxyz'') c of
        Some small \<Rightarrow> small
      | None \<Rightarrow> c)"

fun canonical_case :: "bool \<Rightarrow> string \<Rightarrow> string" where
  "canonical_case upper [] = []"
| "canonical_case upper (c # cs) =
     (let c' = (if upper then to_upper c else to_lower c)
      in c' # canonical_case (c' = CHR ''-'') cs)"

definition CanonicalMIMEHeaderKey :: "string \<Rightarrow> string" where
  "CanonicalMIMEHeaderKey s =
     (if list_all validHeaderFieldByte s then canonical_case True s else s)"

text \<open>
  \<^verbatim>\<open>http.ResponseWriter\<close> is an interface; the model records what the program hands to it.
  The header is the \<^verbatim>\<open>http.Header\<close> that \<^verbatim>\<open>w.Header()\<close> returns, as the multiset of its
  (name, value) entries: \<^verbatim>\<open>Add\<close> appends the value to those of the canonical name, and
  the program adds while ranging over a Go map, whose order is unspecified, so the order
  of the values of one name is not determined. Then the codes given to
  \<^verbatim>\<open>w.WriteHeader\<close> in call order, and the bytes given to \<^verbatim>\<open>w.Write\<close>, concatenated. What
  an implementation of the interface does with a status code or with the bytes is behind
  the interface and not modelled: a status is the number the program passes.
\<close>

record ResponseWriter =
  rw_Header :: "(string \<times> string) multiset"
  rw_WriteHeader :: "int list"
  rw_Write :: string

definition new_ResponseWriter :: ResponseWriter where
  "new_ResponseWriter = \<lparr>rw_Header = {#}, rw_WriteHeader = [], rw_Write = []\<rparr>"

definition Header_Add :: "string \<Rightarrow> string \<Rightarrow> ResponseWriter \<Rightarrow> ResponseWriter" where
  "Header_Add key val w =
     w\<lparr>rw_Header := add_mset (CanonicalMIMEHeaderKey key, val) (rw_Header w)\<rparr>"

definition WriteHeader :: "int \<Rightarrow> ResponseWriter \<Rightarrow> ResponseWriter" where
  "WriteHeader statusCode w = w\<lparr>rw_WriteHeader := rw_WriteHeader w @ [statusCode]\<rparr>"

definition Write :: "string \<Rightarrow> ResponseWriter \<Rightarrow> ResponseWriter" where
  "Write bytes w = w\<lparr>rw_Write := rw_Write w @ bytes\<rparr>"

text \<open>
  A value of the function type of \<^verbatim>\<open>ChainMiddleware.Handler\<close>,
  \<^verbatim>\<open>func(w http.ResponseWriter, r *http.Request, next func(error))\<close>. \<open>MockResponse\<close> is the
  closure that \<^verbatim>\<open>handleMockResponse\<close> returns, with the three variables it captures
  (\<^verbatim>\<open>mock\<close>, \<^verbatim>\<open>statusCode\<close>, \<^verbatim>\<open>serializedBody\<close>); it is the only one the program ever
  builds. \<open>OtherFunc\<close> stands for any other function of that type that runs straight through:
  the calls it makes on \<^verbatim>\<open>w\<close> and on \<^verbatim>\<open>next\<close>, in order. It is there so that the
  behaviour of \<^verbatim>\<open>next\<close> on a non-nil error can be stated.
\<close>

datatype call =
    CallHeaderAdd string string
  | CallWriteHeader int
  | CallWrite string
  | CallNext "error option"

datatype MiddlewareFunc =
    MockResponse MockDefinition int string
  | OtherFunc "call list"

record ChainMiddleware =
  cm_Method :: string
  cm_Handler :: MiddlewareFunc

text \<open>
  The closure of line 90 captures \<^verbatim>\<open>mock\<close>, the first definition of its endpoint.
\<close>

datatype HandlerFunc = HandlerFunc MockDefinition

record RouteChain =
  rc_Handler :: HandlerFunc
  rc_Middleware :: "ChainMiddleware list"

type_synonym routes = "string \<rightharpoonup> RouteChain"

section \<open>The response renderer\<close>

text \<open>
  The body of the closure returned by \<^verbatim>\<open>handleMockResponse\<close> (lines 141 to 157). The map
  literal of line 142 has two distinct keys; the assignment \<^verbatim>\<open>headers[key] = value\<close> is
  \<open>AList.update\<close>.
\<close>

definition mockResponse :: "MockDefinition \<Rightarrow> int \<Rightarrow> string \<Rightarrow> ResponseWriter \<Rightarrow> ResponseWriter" where
  "mockResponse mock statusCode serializedBody w =
     (let headers = [(''Content-Type'', ''application/json''), (''Server'', SERVER_NAME)];
          headers = foldl (\<lambda>h (key, val). AList.update key val h) headers (Headers (Response mock));
          w = foldl (\<lambda>w (key, val). Header_Add key val w) w headers;
          w = WriteHeader statusCode w
      in Write serializedBody w)"

section \<open>The dispatch chain\<close>

text \<open>
  The state of one request: \<^verbatim>\<open>currentMidleware\<close> and the response writer. \<open>next_fn\<close> is
  the closure \<^verbatim>\<open>next\<close> of lines 96 to 113; \<open>invoke\<close> runs
  \<^verbatim>\<open>middleware.Handler(w, r, next)\<close>, of line 109. The index starts at \<open>-1\<close> and only
  grows, so \<open>nat\<close> of it is the index Go reads once it has been incremented.
\<close>

type_synonym chain_state = "int \<times> ResponseWriter"

function next_fn :: "ChainMiddleware list \<Rightarrow> Request \<Rightarrow> error option \<Rightarrow> chain_state \<Rightarrow> chain_state"
  and invoke :: "ChainMiddleware list \<Rightarrow> Request \<Rightarrow> MiddlewareFunc \<Rightarrow> chain_state \<Rightarrow> chain_state"
where
  "next_fn middlewares r (Some err) (currentMidleware, w) = (currentMidleware, WriteHeader 500 w)"
| "next_fn middlewares r None (currentMidleware, w) =
     (if currentMidleware + 1 \<ge> int (length middlewares)
      then (currentMidleware + 1, WriteHeader 404 w)
      else if r_Method r = cm_Method (middlewares ! nat (currentMidleware + 1))
      then invoke middlewares r (cm_Handler (middlewares ! nat (currentMidleware + 1))) (currentMidleware + 1, w)
      else next_fn middlewares r None (currentMidleware + 1, w))"
| "invoke middlewares r (MockResponse mock statusCode serializedBody) (currentMidleware, w) =
     (currentMidleware, mockResponse mock statusCode serializedBody w)"
| "invoke middlewares r (OtherFunc []) st = st"
| "invoke middlewares r (OtherFunc (CallHeaderAdd key val # rest)) (currentMidleware, w) =
     invoke middlewares r (OtherFunc rest) (currentMidleware, Header_Add key val w)"
| "invoke middlewares r (OtherFunc (CallWriteHeader statusCode # rest)) (currentMidleware, w) =
     invoke middlewares r (OtherFunc rest) (currentMidleware, WriteHeader statusCode w)"
| "invoke middlewares r (OtherFunc (CallWrite bytes # rest)) (currentMidleware, w) =
     invoke middlewares r (OtherFunc rest) (currentMidleware, Write bytes w)"
| "invoke middlewares r (OtherFunc (CallNext err # rest)) st =
     invoke middlewares r (OtherFunc rest) (next_fn middlewares r err st)"
  by pat_completeness auto

text \<open>
  The two functions call each other, and the call of \<open>invoke\<close> on the rest of a function
  body takes the state that \<open>next_fn\<close> returned: termination needs that the index never
  decreases.
\<close>

lemma next_fn_invoke_index_mono:
  "next_fn_invoke_dom (Inl (ms, r, e, st)) \<Longrightarrow> fst st \<le> fst (next_fn ms r e st)"
  "next_fn_invoke_dom (Inr (ms, r, h, st)) \<Longrightarrow> fst st \<le> fst (invoke ms r h st)"
  by (induct rule: next_fn_invoke.pinduct) (auto simp: next_fn.psimps invoke.psimps)

termination next_fn
proof (relation "(\<lambda>x. case x of
          Inl (ms, r, e, st) \<Rightarrow> nat (int (length ms) - fst st)
        | Inr (ms, r, h, st) \<Rightarrow> nat (int (length ms) - fst st)) <*mlex*>
      measure (\<lambda>x. case x of
          Inl (ms, r, e, st) \<Rightarrow> 0
        | Inr (ms, r, h, st) \<Rightarrow> (case h of OtherFunc cs \<Rightarrow> Suc (length cs) | _ \<Rightarrow> 0))",
    goal_cases)
  case 1
  then show ?case by (simp add: wf_mlex)
next
  case 2
  then show ?case by (auto intro!: mlex_less)
next
  case 3
  then show ?case by (auto intro!: mlex_less)
next
  case (8 ms r err rest st)
  then show ?case
    using next_fn_invoke_index_mono(1)[of ms r err st]
    by (auto intro!: mlex_leq)
qed (auto intro!: mlex_leq)

text \<open>
  The closure \<^verbatim>\<open>handler\<close> of lines 90 to 117. Indexing a Go map at a key it does not
  hold gives the zero \<^verbatim>\<open>RouteChain\<close>, whose \<^verbatim>\<open>Middleware\<close> is the nil slice.
\<close>

definition Middleware_at :: "routes \<Rightarrow> string \<Rightarrow> ChainMiddleware list" where
  "Middleware_at routeChain endpoint =
     (case routeChain endpoint of None \<Rightarrow> [] | Some chain \<Rightarrow> rc_Middleware chain)"

fun handler :: "routes \<Rightarrow> HandlerFunc \<Rightarrow> ResponseWriter \<Rightarrow> Request \<Rightarrow> ResponseWriter" where
  "handler routeChain (HandlerFunc mock) w r =
     (let middlewares = Middleware_at routeChain (Endpoint mock);
          currentMidleware = - 1
      in snd (next_fn middlewares r None (currentMidleware, w)))"

declare next_fn.simps(2) [simp del]


section \<open>Printing Go values\<close>

text \<open>
  \<^verbatim>\<open>serialize\<close> calls \<^verbatim>\<open>json.Marshal\<close> and \<^verbatim>\<open>fmt.Sprint\<close>. Both are functions of the Go
  standard library; they are modelled here on the values of \<open>go_value\<close>, after the library's
  sources (\<^verbatim>\<open>encoding/json/encode.go\<close>, \<^verbatim>\<open>fmt/print.go\<close>), for the Go release the
  program needs (it reads \<^verbatim>\<open>r.Pattern\<close>, so Go 1.23 or later), except for the text of a
  \<^verbatim>\<open>float64\<close>, which is the platform's. Strings are byte strings in valid UTF-8, as the
  JSON decoder produces them.
\<close>

fun join :: "'a list \<Rightarrow> 'a list list \<Rightarrow> 'a list" where
  "join sep [] = []"
| "join sep [x] = x"
| "join sep (x # y # ys) = x @ sep @ join sep (y # ys)"

text \<open>
  \<^verbatim>\<open>fmt.Sprint\<close> of one operand prints it with \<^verbatim>\<open>%v\<close>: a nil interface as \<^verbatim>\<open><nil>\<close>, a
  string as its bytes, a slice as its elements between brackets, separated by spaces, a map
  as \<^verbatim>\<open>map[k:v ...]\<close> with the keys sorted.
\<close>

fun fmt_Sprint :: "platform \<Rightarrow> go_value \<Rightarrow> string" where
  "fmt_Sprint P VNil = ''<nil>''"
| "fmt_Sprint P (VBool b) = (if b then ''true'' else ''false'')"
| "fmt_Sprint P (VFloat64 f) = strconv_FormatFloat P f"
| "fmt_Sprint P (VString s) = s"
| "fmt_Sprint P (VSlice vs) = ''['' @ join '' '' (map (fmt_Sprint P) vs) @ '']''"
| "fmt_Sprint P (VMap kvs) =
     ''map['' @ join '' '' (map (\<lambda>(k, v). k @ '':'' @ fmt_Sprint P v) (sort_key fst kvs)) @ '']''"

text \<open>
  The string encoder of \<^verbatim>\<open>encoding/json\<close>, with HTML escaping on (as \<^verbatim>\<open>json.Marshal\<close> has
  it): the quote and the backslash get a backslash, the control characters their short or
  \<^verbatim>\<open>\u00XX\<close> form, and so do \<^verbatim>\<open><\<close>, \<^verbatim>\<open>>\<close> and \<^verbatim>\<open>&\<close>; U+2028 and U+2029 (in UTF-8:
  E2 80 A8 and E2 80 A9) are escaped as well; all other bytes stand for themselves.
\<close>

definition bslash :: char where
  "bslash = CHR 0x5C"

definition dquote :: char where
  "dquote = CHR 0x22"

definition hex_digit :: "nat \<Rightarrow> char" where
  "hex_digit n = ''0123456789abcdef'' ! n"

definition json_escape_byte :: "char \<Rightarrow> string" where
  "json_escape_byte c =
     (let b = (of_char c :: nat) in
      if b \<ge> 0x80 then [c]
      else if c = bslash \<or> c = dquote then [bslash, c]
      else if b = 0x08 then [bslash, CHR ''b'']
      else if b = 0x0C then [bslash, CHR ''f'']
      else if b = 0x0A then [bslash, CHR ''n'']
      else if b = 0x0D then [bslash, CHR ''r'']
      else if b = 0x09 then [bslash, CHR ''t'']
      else if b < 0x20 \<or> c = CHR ''<'' \<or> c = CHR ''>'' \<or> c = CHR ''&''
      then [bslash, CHR ''u'', CHR ''0'', CHR ''0'', hex_digit (b div 16), hex_digit (b mod 16)]
      else [c])"

fun json_escape :: "string \<Rightarrow> string" where
  "json_escape (a # b # c # cs) =
     (if a = CHR 0xE2 \<and> b = CHR 0x80 \<and> (c = CHR 0xA8 \<or> c = CHR 0xA9)
      then [bslash, CHR ''u'', CHR ''2'', CHR ''0'', CHR ''2'', hex_digit (of_char c mod 16)] @
           json_escape cs
      else json_escape_byte a @ json_escape (b # c # cs))"
| "json_escape (a # cs) = json_escape_byte a @ json_escape cs"
| "json_escape [] = []"

definition json_string :: "string \<Rightarrow> string" where
  "json_string s = [dquote] @ json_escape s @ [dquote]"

text \<open>
  The encoder stops at the first value it cannot encode, which among the values of
  \<open>go_value\<close> is a \<^verbatim>\<open>float64\<close> that the float encoder refuses. \<open>all_or_error\<close> is that
  first error, or all the results.
\<close>

fun all_or_error :: "(error + 'a) list \<Rightarrow> error + 'a list" where
  "all_or_error [] = Inr []"
| "all_or_error (x # xs) =
     (case x of
        Inl err \<Rightarrow> Inl err
      | Inr a \<Rightarrow> (case all_or_error xs of Inl err \<Rightarrow> Inl err | Inr as \<Rightarrow> Inr (a # as)))"

fun json_encode :: "platform \<Rightarrow> go_value \<Rightarrow> error + string" where
  "json_encode P VNil = Inr ''null''"
| "json_encode P (VBool b) = Inr (if b then ''true'' else ''false'')"
| "json_encode P (VFloat64 f) =
     (case json_floatEncoder P f of
        None \<Rightarrow> Inl (MarshalError ''json: unsupported value'')
      | Some text \<Rightarrow> Inr text)"
| "json_encode P (VString s) = Inr (json_string s)"
| "json_encode P (VSlice vs) =
     (case all_or_error (map (json_encode P) vs) of
        Inl err \<Rightarrow> Inl err
      | Inr texts \<Rightarrow> Inr (''['' @ join '','' texts @ '']''))"
| "json_encode P (VMap kvs) =
     (case all_or_error
             (map (\<lambda>(k, v). case json_encode P v of
                               Inl err \<Rightarrow> Inl err
                             | Inr text \<Rightarrow> Inr (json_string k @ '':'' @ text))
                (sort_key fst kvs)) of
        Inl err \<Rightarrow> Inl err
      | Inr texts \<Rightarrow> Inr (''{'' @ join '','' texts @ ''}''))"

definition json_Marshal :: "platform \<Rightarrow> go_value \<Rightarrow> error + string" where
  "json_Marshal P v = json_encode P v"

section \<open>Building the responders and the route table\<close>

text \<open>
  \<^verbatim>\<open>serialize\<close>, lines 160 to 171. \<open>Inl\<close> is the \<^verbatim>\<open>log.Fatalf\<close> of line 165, which ends the
  process.
\<close>

definition serialize :: "platform \<Rightarrow> go_value \<Rightarrow> error + string" where
  "serialize P data =
     (case data of
        VMap val \<Rightarrow>
          (case json_Marshal P (VMap val) of
             Inl err \<Rightarrow> Inl err
           | Inr jsonBytes \<Rightarrow> Inr jsonBytes)
      | _ \<Rightarrow> Inr (fmt_Sprint P data))"

text \<open>\<^verbatim>\<open>handleMockResponse\<close>, lines 133 to 158: the part that runs when the closure is built.\<close>

definition handleMockResponse :: "platform \<Rightarrow> MockDefinition \<Rightarrow> error + MiddlewareFunc" where
  "handleMockResponse P mock =
     (let statusCode = StatusCode (Response mock);
          statusCode = (if statusCode = 0 then 200 else statusCode)
      in case serialize P (Body (Response mock)) of
           Inl err \<Rightarrow> Inl err
         | Inr serializedBody \<Rightarrow> Inr (MockResponse mock statusCode serializedBody))"

text \<open>
  \<^verbatim>\<open>generateMockHandler\<close>, lines 72 to 131. It reads and writes the global \<^verbatim>\<open>routeChain\<close>,
  which is passed in and returned; the result \<open>None\<close> is the \<^verbatim>\<open>nil\<close> of line 87.
\<close>

definition generateMockHandler ::
  "platform \<Rightarrow> MockDefinition \<Rightarrow> routes \<Rightarrow> error + (HandlerFunc option \<times> routes)" where
  "generateMockHandler P mock routeChain =
     (case routeChain (Endpoint mock) of
        Some chain \<Rightarrow>
          (case handleMockResponse P mock of
             Inl err \<Rightarrow> Inl err
           | Inr h \<Rightarrow>
               (let chain = chain\<lparr>rc_Middleware :=
                      rc_Middleware chain @ [\<lparr>cm_Method = Method mock, cm_Handler = h\<rparr>]\<rparr>
                in Inr (None,
                     routeChain(Endpoint mock \<mapsto>
                       \<lparr>rc_Handler = rc_Handler chain, rc_Middleware = rc_Middleware chain\<rparr>))))
      | None \<Rightarrow>
          (let handler = HandlerFunc mock in
           case handleMockResponse P mock of
             Inl err \<Rightarrow> Inl err
           | Inr h \<Rightarrow>
               (let chainMiddleware = [] @ [\<lparr>cm_Method = Method mock, cm_Handler = h\<rparr>]
                in Inr (Some handler,
                     routeChain(Endpoint mock \<mapsto>
                       \<lparr>rc_Handler = handler, rc_Middleware = chainMiddleware\<rparr>)))))"

text \<open>
  \<^verbatim>\<open>http.ServeMux\<close> is the list of its registrations (pattern, handler), in the order of
  the calls of \<^verbatim>\<open>mux.HandleFunc\<close>. \<^verbatim>\<open>HandleFunc\<close> panics on the empty pattern, on a
  pattern it cannot parse and on one that conflicts with a pattern registered before; the
  first is written out, the rest is the platform's \<open>mux_accepts\<close>. A panic in \<^verbatim>\<open>main\<close>
  ends the process.
\<close>

type_synonym ServeMux = "(string \<times> HandlerFunc) list"

definition HandleFunc :: "platform \<Rightarrow> string \<Rightarrow> HandlerFunc \<Rightarrow> ServeMux \<Rightarrow> error + ServeMux" where
  "HandleFunc P pattern h mux =
     (if pattern = [] \<or> \<not> mux_accepts P (map fst mux) pattern then Inl (Panic pattern)
      else Inr (mux @ [(pattern, h)]))"

text \<open>The loop of \<^verbatim>\<open>main\<close>, lines 61 to 66.\<close>

fun main_routes ::
  "platform \<Rightarrow> MockDefinition list \<Rightarrow> routes \<times> ServeMux \<Rightarrow> error + routes \<times> ServeMux" where
  "main_routes P [] (routeChain, mux) = Inr (routeChain, mux)"
| "main_routes P (mock # mocks) (routeChain, mux) =
     (case generateMockHandler P mock routeChain of
        Inl err \<Rightarrow> Inl err
      | Inr (h, routeChain') \<Rightarrow>
          (case h of
             None \<Rightarrow> main_routes P mocks (routeChain', mux)
           | Some f \<Rightarrow>
               (case HandleFunc P (Endpoint mock) f mux of
                  Inl err \<Rightarrow> Inl err
                | Inr mux' \<Rightarrow> main_routes P mocks (routeChain', mux'))))"

section \<open>Decoding a mock file\<close>

definition json_kind :: "json \<Rightarrow> string" where
  "json_kind v =
     (case v of
        JNull \<Rightarrow> ''null''
      | JBool _ \<Rightarrow> ''bool''
      | JNumber _ \<Rightarrow> ''number''
      | JString _ \<Rightarrow> ''string''
      | JArray _ \<Rightarrow> ''array''
      | JObject _ \<Rightarrow> ''object'')"

text \<open>
  \<^verbatim>\<open>json.Unmarshal\<close> goes on after a value of the wrong type and returns the first such
  error at the end. Both callers drop the value when there is an error, so the model stops
  at the first error.
\<close>

fun fold_result :: "('a \<Rightarrow> 's \<Rightarrow> error + 's) \<Rightarrow> 'a list \<Rightarrow> 's \<Rightarrow> error + 's" where
  "fold_result f [] s = Inr s"
| "fold_result f (x # xs) s =
     (case f x s of Inl err \<Rightarrow> Inl err | Inr s' \<Rightarrow> fold_result f xs s')"

text \<open>
  Decoding into an \<^verbatim>\<open>interface{}\<close> (the field \<^verbatim>\<open>Body\<close>): \<^verbatim>\<open>null\<close> gives \<^verbatim>\<open>nil\<close>, a
  number the \<^verbatim>\<open>float64\<close> that \<^verbatim>\<open>strconv.ParseFloat\<close> reads from its literal, or an error
  when that fails, an object a \<^verbatim>\<open>map[string]interface{}\<close> in which a repeated key keeps
  its last value.
\<close>

fun decode_interface :: "platform \<Rightarrow> json \<Rightarrow> error + go_value" where
  "decode_interface P JNull = Inr VNil"
| "decode_interface P (JBool b) = Inr (VBool b)"
| "decode_interface P (JNumber literal) =
     (case strconv_ParseFloat P literal of
        None \<Rightarrow> Inl (UnmarshalTypeError (''number '' @ literal) ''float64'')
      | Some f \<Rightarrow> Inr (VFloat64 f))"
| "decode_interface P (JString s) = Inr (VString s)"
| "decode_interface P (JArray vs) =
     (case all_or_error (map (decode_interface P) vs) of
        Inl err \<Rightarrow> Inl err
      | Inr elems \<Rightarrow> Inr (VSlice elems))"
| "decode_interface P (JObject kvs) =
     (case all_or_error
             (map (\<lambda>(k, v). case decode_interface P v of
                               Inl err \<Rightarrow> Inl err
                             | Inr x \<Rightarrow> Inr (k, x)) kvs) of
        Inl err \<Rightarrow> Inl err
      | Inr members \<Rightarrow> Inr (VMap (foldl (\<lambda>m (k, x). AList.update k x m) [] members)))"

text \<open>
  A member of an object is stored in the struct field whose JSON name equals its key, or
  equals it after case folding. The folding of \<^verbatim>\<open>encoding/json\<close> maps a letter of a to z
  to its capital; of the characters outside ASCII only U+017F (C5 BF) and U+212A (E2 84 AA)
  fold to ASCII letters, S and K. \<open>foldName\<close> leaves every other byte as it is, which
  decides in the same way whether a key folds to the folded name of a field, the names of
  the fields being ASCII.
\<close>

fun foldName :: "string \<Rightarrow> string" where
  "foldName (a # b # c # cs) =
     (if a = CHR 0xE2 \<and> b = CHR 0x84 \<and> c = CHR 0xAA then CHR ''K'' # foldName cs
      else if a = CHR 0xC5 \<and> b = CHR 0xBF then CHR ''S'' # foldName (c # cs)
      else to_upper a # foldName (b # c # cs))"
| "foldName [a, b] =
     (if a = CHR 0xC5 \<and> b = CHR 0xBF then ''S'' else [to_upper a, to_upper b])"
| "foldName [a] = [to_upper a]"
| "foldName [] = []"

text \<open>
  An \<^verbatim>\<open>int\<close> has 64 bits, and a number is stored in it through
  \<^verbatim>\<open>strconv.ParseInt(literal, 10, 64)\<close>: an optional sign and decimal digits, nothing
  else, and a value within range. A literal with a fraction or an exponent is a type
  error.
\<close>

definition digit_value :: "char \<Rightarrow> nat option" where
  "digit_value c =
     (let b = (of_char c :: nat) in if 0x30 \<le> b \<and> b \<le> 0x39 then Some (b - 0x30) else None)"

fun digits_value :: "nat \<Rightarrow> string \<Rightarrow> nat option" where
  "digits_value n [] = Some n"
| "digits_value n (c # cs) =
     (case digit_value c of None \<Rightarrow> None | Some d \<Rightarrow> digits_value (10 * n + d) cs)"

definition strconv_ParseInt :: "string \<Rightarrow> int option" where
  "strconv_ParseInt s =
     (let neg = (s \<noteq> [] \<and> hd s = CHR ''-'');
          digits = (if s \<noteq> [] \<and> (hd s = CHR ''-'' \<or> hd s = CHR ''+'') then tl s else s)
      in if digits = [] then None
         else (case digits_value 0 digits of
                 None \<Rightarrow> None
               | Some n \<Rightarrow>
                   (let v = (if neg then - int n else int n)
                    in if - (2 ^ 63) \<le> v \<and> v < 2 ^ 63 then Some v else None)))"

text \<open>
  Decoding into a value that exists: \<^verbatim>\<open>null\<close> leaves a string, an int and a struct as they
  are and sets a map to nil.
\<close>

definition decode_string :: "json \<Rightarrow> string \<Rightarrow> error + string" where
  "decode_string v old =
     (case v of
        JString s \<Rightarrow> Inr s
      | JNull \<Rightarrow> Inr old
      | _ \<Rightarrow> Inl (UnmarshalTypeError (json_kind v) ''string''))"

definition decode_int :: "json \<Rightarrow> int \<Rightarrow> error + int" where
  "decode_int v old =
     (case v of
        JNumber literal \<Rightarrow>
          (case strconv_ParseInt literal of
             Some n \<Rightarrow> Inr n
           | None \<Rightarrow> Inl (UnmarshalTypeError (''number '' @ literal) ''int''))
      | JNull \<Rightarrow> Inr old
      | _ \<Rightarrow> Inl (UnmarshalTypeError (json_kind v) ''int''))"

definition decode_map_entry :: "string \<times> json \<Rightarrow> (string \<times> string) list \<Rightarrow> error + (string \<times> string) list" where
  "decode_map_entry kv m =
     (case decode_string (snd kv) [] of
        Inl err \<Rightarrow> Inl err
      | Inr s \<Rightarrow> Inr (AList.update (fst kv) s m))"

definition decode_map :: "json \<Rightarrow> (string \<times> string) list \<Rightarrow> error + (string \<times> string) list" where
  "decode_map v old =
     (case v of
        JObject kvs \<Rightarrow> fold_result decode_map_entry kvs old
      | JNull \<Rightarrow> Inr []
      | _ \<Rightarrow> Inl (UnmarshalTypeError (json_kind v) ''map[string]string''))"

definition decode_response_field ::
  "platform \<Rightarrow> string \<times> json \<Rightarrow> MockResponseDefinition \<Rightarrow> error + MockResponseDefinition" where
  "decode_response_field P kv resp =
     (let name = foldName (fst kv) in
      if name = foldName ''body'' then
        (case decode_interface P (snd kv) of
           Inl err \<Rightarrow> Inl err
         | Inr v \<Rightarrow> Inr (resp\<lparr>Body := v\<rparr>))
      else if name = foldName ''headers'' then
        (case decode_map (snd kv) (Headers resp) of
           Inl err \<Rightarrow> Inl err
         | Inr m \<Rightarrow> Inr (resp\<lparr>Headers := m\<rparr>))
      else if name = foldName ''statusCode'' then
        (case decode_int (snd kv) (StatusCode resp) of
           Inl err \<Rightarrow> Inl err
         | Inr n \<Rightarrow> Inr (resp\<lparr>StatusCode := n\<rparr>))
      else Inr resp)"

definition decode_response ::
  "platform \<Rightarrow> json \<Rightarrow> MockResponseDefinition \<Rightarrow> error + MockResponseDefinition" where
  "decode_response P v old =
     (case v of
        JObject kvs \<Rightarrow> fold_result (decode_response_field P) kvs old
      | JNull \<Rightarrow> Inr old
      | _ \<Rightarrow> Inl (UnmarshalTypeError (json_kind v) ''main.MockResponseDefinition''))"

definition decode_mock_field ::
  "platform \<Rightarrow> string \<times> json \<Rightarrow> MockDefinition \<Rightarrow> error + MockDefinition" where
  "decode_mock_field P kv mock =
     (let name = foldName (fst kv) in
      if name = foldName ''endpoint'' then
        (case decode_string (snd kv) (Endpoint mock) of
           Inl err \<Rightarrow> Inl err
         | Inr s \<Rightarrow> Inr (mock\<lparr>Endpoint := s\<rparr>))
      else if name = foldName ''method'' then
        (case decode_string (snd kv) (Method mock) of
           Inl err \<Rightarrow> Inl err
         | Inr s \<Rightarrow> Inr (mock\<lparr>Method := s\<rparr>))
      else if name = foldName ''response'' then
        (case decode_response P (snd kv) (Response mock) of
           Inl err \<Rightarrow> Inl err
         | Inr resp \<Rightarrow> Inr (mock\<lparr>Response := resp\<rparr>))
      else Inr mock)"

definition decode_mock :: "platform \<Rightarrow> json \<Rightarrow> MockDefinition \<Rightarrow> error + MockDefinition" where
  "decode_mock P v old =
     (case v of
        JObject kvs \<Rightarrow> fold_result (decode_mock_field P) kvs old
      | JNull \<Rightarrow> Inr old
      | _ \<Rightarrow> Inl (UnmarshalTypeError (json_kind v) ''main.MockDefinition''))"

definition zero_MockDefinition :: MockDefinition where
  "zero_MockDefinition =
     \<lparr>Endpoint = [], Method = [],
      Response = \<lparr>Body = VNil, Headers = [], StatusCode = 0\<rparr>\<rparr>"

text \<open>
  \<^verbatim>\<open>json.Unmarshal(content, &listOfMocks)\<close> for the nil slice of line 219: an array gives
  one definition for each element, each decoded into a zero struct; \<^verbatim>\<open>null\<close> leaves the
  slice nil and is no error.
\<close>

fun decode_elements :: "platform \<Rightarrow> json list \<Rightarrow> error + MockDefinition list" where
  "decode_elements P [] = Inr []"
| "decode_elements P (v # vs) =
     (case decode_mock P v zero_MockDefinition of
        Inl err \<Rightarrow> Inl err
      | Inr mock \<Rightarrow>
          (case decode_elements P vs of Inl err \<Rightarrow> Inl err | Inr mocks \<Rightarrow> Inr (mock # mocks)))"

definition Unmarshal_list :: "platform \<Rightarrow> json \<Rightarrow> error + MockDefinition list" where
  "Unmarshal_list P v =
     (case v of
        JArray vs \<Rightarrow> decode_elements P vs
      | JNull \<Rightarrow> Inr []
      | _ \<Rightarrow> Inl (UnmarshalTypeError (json_kind v) ''[]main.MockDefinition''))"

text \<open>\<^verbatim>\<open>json.Unmarshal(content, &mock)\<close> for the zero struct of line 225.\<close>

definition Unmarshal_mock :: "platform \<Rightarrow> json \<Rightarrow> error + MockDefinition" where
  "Unmarshal_mock P v = decode_mock P v zero_MockDefinition"

section \<open>The mock loader\<close>

text \<open>\<^verbatim>\<open>loadMockFromJson\<close>, lines 206 to 232.\<close>

definition loadMockFromJson :: "platform \<Rightarrow> string \<Rightarrow> error + MockDefinition list" where
  "loadMockFromJson P filepath =
     (case os_ReadFile P filepath of
        Inl err \<Rightarrow> Inl (OsError err)
      | Inr content \<Rightarrow>
          (case json_parse P content of
             None \<Rightarrow> Inl (InvalidJson filepath)
           | Some doc \<Rightarrow>
               (case Unmarshal_list P doc of
                  Inr listOfMocks \<Rightarrow> Inr listOfMocks
                | Inl _ \<Rightarrow>
                    (case Unmarshal_mock P doc of
                       Inl err \<Rightarrow> Inl err
                     | Inr mock \<Rightarrow> Inr [mock]))))"

text \<open>
  \<^verbatim>\<open>filepath.Ext\<close>: the suffix that starts at the last dot of the last element of the path,
  empty when that element has no dot.
\<close>

fun ext_scan :: "string \<Rightarrow> string \<Rightarrow> string" where
  "ext_scan [] suffix = []"
| "ext_scan (c # front) suffix =
     (if c = CHR ''/'' then []
      else if c = CHR ''.'' then c # suffix
      else ext_scan front (c # suffix))"

definition filepath_Ext :: "string \<Rightarrow> string" where
  "filepath_Ext path = ext_scan (rev path) []"

text \<open>
  A buffered channel is the list of the values it holds, oldest first. A send on a channel
  that holds as many values as its capacity blocks; while the loader runs there is no other
  goroutine that could receive, so the send never returns (the Go runtime then stops the
  process: all goroutines are asleep). \<open>chan_send\<close> is \<open>None\<close> in that case.
\<close>

definition chan_send :: "nat \<Rightarrow> 'a \<Rightarrow> 'a list \<Rightarrow> 'a list option" where
  "chan_send capacity x buf = (if length buf < capacity then Some (buf @ [x]) else None)"

text \<open>The loop over the entries of one directory, lines 190 to 200.\<close>

datatype 'a step = Continue 'a | Return error | Blocked

fun range_entries ::
  "platform \<Rightarrow> string \<Rightarrow> DirEntry list \<Rightarrow> string list \<times> MockDefinition list \<Rightarrow>
   (string list \<times> MockDefinition list) step" where
  "range_entries P dirpath [] (dirStack, mocks) = Continue (dirStack, mocks)"
| "range_entries P dirpath (entry # entries) (dirStack, mocks) =
     (if IsDir entry then
        (case chan_send MAX_DIRECTORY_COUNT (path_Join P dirpath (Name entry)) dirStack of
           None \<Rightarrow> Blocked
         | Some dirStack' \<Rightarrow> range_entries P dirpath entries (dirStack', mocks))
      else if filepath_Ext (Name entry) = ''.json'' then
        (case loadMockFromJson P (path_Join P dirpath (Name entry)) of
           Inl err \<Rightarrow> Return err
         | Inr mock \<Rightarrow> range_entries P dirpath entries (dirStack, mocks @ mock))
      else range_entries P dirpath entries (dirStack, mocks))"

text \<open>
  The loop of lines 178 to 201 and \<^verbatim>\<open>loadMocks\<close> itself. The loop runs as long as
  directories are pending, which on an endless tree is forever: the result is an option,
  \<open>None\<close> when the loop does not end. \<open>Deadlock\<close> is the send that blocks.
\<close>

datatype load_result = Returns "error + MockDefinition list" | Deadlock

partial_function (option) loadMocks_loop ::
  "platform \<Rightarrow> string list \<Rightarrow> MockDefinition list \<Rightarrow> load_result option" where
  "loadMocks_loop P dirStack mocks =
     (if length dirStack > 0 then
        (if length dirStack > MAX_DIRECTORY_COUNT
         then Some (Returns (Inl (MaxDirectoryCount MAX_DIRECTORY_COUNT)))
         else
           (case os_ReadDir P (hd dirStack) of
              Inl err \<Rightarrow> Some (Returns (Inl (OsError err)))
            | Inr entries \<Rightarrow>
                (case range_entries P (hd dirStack) entries (tl dirStack, mocks) of
                   Return err \<Rightarrow> Some (Returns (Inl err))
                 | Blocked \<Rightarrow> Some Deadlock
                 | Continue (dirStack', mocks') \<Rightarrow> loadMocks_loop P dirStack' mocks')))
      else Some (Returns (Inr mocks)))"

declare loadMocks_loop.simps [code]

definition loadMocks :: "platform \<Rightarrow> string \<Rightarrow> load_result option" where
  "loadMocks P dirpath =
     (case chan_send MAX_DIRECTORY_COUNT dirpath [] of
        None \<Rightarrow> Some Deadlock
      | Some dirStack \<Rightarrow> loadMocks_loop P dirStack [])"

section \<open>Documents that say nothing of a field\<close>

text \<open>
  A document says nothing of a field of the response when every member named
  \<^verbatim>\<open>response\<close> is \<^verbatim>\<open>null\<close> or an object in which every member with the name of the field
  is \<^verbatim>\<open>null\<close>; a document with no such member at all is one of them.
\<close>

definition omits :: "string \<Rightarrow> (string \<times> json) list \<Rightarrow> bool" where
  "omits field kvs =
     list_all (\<lambda>kv. foldName (fst kv) \<noteq> foldName ''response'' \<or>
        (case snd kv of
           JNull \<Rightarrow> True
         | JObject fs \<Rightarrow>
             list_all (\<lambda>f. foldName (fst f) \<noteq> foldName field \<or> snd f = JNull) fs
         | _ \<Rightarrow> False)) kvs"

section \<open>Examples\<close>

text \<open>
  The concrete inputs of the examples below. The numbers 1 and 1.5 as \<^verbatim>\<open>float64\<close> (IEEE 754
  bits).
\<close>

definition float64_1 :: float64 where
  "float64_1 = 0x3FF0000000000000"

definition float64_1_5 :: float64 where
  "float64_1_5 = 0x3FF8000000000000"

text \<open>
  Three definitions of one endpoint, the third repeating the method of the first, and one
  of another endpoint; and two requests.
\<close>

definition example_defs :: "MockDefinition list" where
  "example_defs =
     [\<lparr>Endpoint = ''/users'', Method = ''GET'',
       Response = \<lparr>Body = VString ''first'', Headers = [], StatusCode = 0\<rparr>\<rparr>,
      \<lparr>Endpoint = ''/users'', Method = ''POST'',
       Response = \<lparr>Body = VNil, Headers = [], StatusCode = 201\<rparr>\<rparr>,
      \<lparr>Endpoint = ''/health'', Method = ''GET'',
       Response = \<lparr>Body = VMap [(''a'', VFloat64 float64_1)],
                   Headers = [(''Content-Type'', ''text/plain'')], StatusCode = 0\<rparr>\<rparr>,
      \<lparr>Endpoint = ''/users'', Method = ''GET'',
       Response = \<lparr>Body = VString ''second'', Headers = [], StatusCode = 202\<rparr>\<rparr>]"

definition example_get :: Request where
  "example_get = \<lparr>r_Method = ''GET'', r_Pattern = ''/users''\<rparr>"

definition example_delete :: Request where
  "example_delete = \<lparr>r_Method = ''DELETE'', r_Pattern = ''/users''\<rparr>"




definition ok_def :: MockDefinition where
  "ok_def =
     \<lparr>Endpoint = ''/ok'', Method = ''GET'',
      Response = \<lparr>Body = VString ''ok'', Headers = [], StatusCode = 0\<rparr>\<rparr>"

text \<open>
  Two mock files as documents: a single definition that gives neither a status code nor a
  body, and an array of two definitions of one endpoint.
\<close>

definition example_members :: "(string \<times> json) list" where
  "example_members =
     [(''endpoint'', JString ''/ping''), (''method'', JString ''GET''),
      (''response'', JObject [(''headers'', JObject [(''X-Mock'', JString ''1'')])])]"

definition example_object :: json where
  "example_object = JObject example_members"

definition example_array :: json where
  "example_array =
     JArray [JObject [(''endpoint'', JString ''/items''), (''method'', JString ''GET''),
                      (''response'', JObject [(''body'', JObject [(''a'', JNumber ''1'')])])],
             JObject [(''endpoint'', JString ''/items''), (''method'', JString ''POST''),
                      (''response'', JObject [(''body'', JString ''ok''),
                                              (''statusCode'', JNumber ''201'')])]]"

text \<open>
  A directory \<^verbatim>\<open>mocks\<close> with two mock files and a file that is not one, and a file
  elsewhere whose content is valid JSON of neither shape. The platform of the examples
  reads and prints the numbers 1 and 1.5 and no other, and its multiplexer takes a pattern
  that starts with a slash, once.
\<close>

definition items_json :: string where
  "items_json =
     ''[{\"endpoint\":\"/items\",\"method\":\"GET\",\"response\":{\"body\":{\"a\":1}}},'' @
     ''{\"endpoint\":\"/items\",\"method\":\"POST\",\"response\":{\"body\":\"ok\",\"statusCode\":201}}]''"

definition ping_json :: string where
  "ping_json =
     ''{\"endpoint\":\"/ping\",\"method\":\"GET\",\"response\":{\"headers\":{\"X-Mock\":\"1\"}}}''"

definition text_json :: string where
  "text_json = ''\"just text\"''"

definition example_platform :: platform where
  "example_platform =
     \<lparr>os_ReadDir = (\<lambda>p.
        if p = ''mocks''
        then Inr [\<lparr>Name = ''items.json'', IsDir = False\<rparr>,
                  \<lparr>Name = ''notes.txt'', IsDir = False\<rparr>,
                  \<lparr>Name = ''ping.json'', IsDir = False\<rparr>]
        else Inl ''not a directory''),
      os_ReadFile = (\<lambda>p.
        if p = ''mocks/items.json'' then Inr items_json
        else if p = ''mocks/ping.json'' then Inr ping_json
        else if p = ''other/text.json'' then Inr text_json
        else Inl ''no such file''),
      path_Join = (\<lambda>dir name. dir @ ''/'' @ name),
      json_parse = (\<lambda>content.
        if content = items_json then Some example_array
        else if content = ping_json then Some example_object
        else if content = text_json then Some (JString ''just text'')
        else None),
      strconv_ParseFloat = (\<lambda>s.
        if s = ''1'' then Some float64_1
        else if s = ''1.5'' then Some float64_1_5
        else None),
      strconv_FormatFloat = (\<lambda>f.
        if f = float64_1 then ''1''
        else if f = float64_1_5 then ''1.5''
        else []),
      json_floatEncoder = (\<lambda>f.
        if f = float64_1 then Some ''1''
        else if f = float64_1_5 then Some ''1.5''
        else None),
      mux_accepts = (\<lambda>registered pattern.
        pattern \<noteq> [] \<and> hd pattern = CHR ''/'' \<and> pattern \<notin> set registered)\<rparr>"

text \<open>
  A root directory with 21 subdirectories and no files, one directory more than the
  channel \<^verbatim>\<open>dirStack\<close> can hold, and one with 20. The subdirectories are named
  \<^verbatim>\<open>d0\<close>, \<^verbatim>\<open>d1\<close> and so on.
\<close>

fun decimal :: "nat \<Rightarrow> string" where
  "decimal n =
     (if n < 10 then [''0123456789'' ! n]
      else decimal (n div 10) @ [''0123456789'' ! (n mod 10)])"

declare decimal.simps [simp del]

definition wide_tree :: platform where
  "wide_tree =
     \<lparr>os_ReadDir = (\<lambda>p.
        if p = ''mocks''
        then Inr (map (\<lambda>i. \<lparr>Name = ''d'' @ decimal i, IsDir = True\<rparr>) [0..<21])
        else Inr []),
      os_ReadFile = (\<lambda>p. Inl ''is a directory''),
      path_Join = (\<lambda>dir name. dir @ ''/'' @ name),
      json_parse = (\<lambda>content. None),
      strconv_ParseFloat = strconv_ParseFloat example_platform,
      strconv_FormatFloat = strconv_FormatFloat example_platform,
      json_floatEncoder = json_floatEncoder example_platform,
      mux_accepts = mux_accepts example_platform\<rparr>"

definition full_tree :: platform where
  "full_tree =
     \<lparr>os_ReadDir = (\<lambda>p.
        if p = ''mocks''
        then Inr (map (\<lambda>i. \<lparr>Name = ''d'' @ decimal i, IsDir = True\<rparr>) [0..<20])
        else Inr []),
      os_ReadFile = (\<lambda>p. Inl ''is a directory''),
      path_Join = (\<lambda>dir name. dir @ ''/'' @ name),
      json_parse = (\<lambda>content. None),
      strconv_ParseFloat = strconv_ParseFloat example_platform,
      strconv_FormatFloat = strconv_FormatFloat example_platform,
      json_floatEncoder = json_floatEncoder example_platform,
      mux_accepts = mux_accepts example_platform\<rparr>"

section \<open>Properties of the dispatch chain\<close>

lemma next_fn_skip:
  assumes "cur + 1 < int (length ms)" "cm_Method (ms ! nat (cur + 1)) \<noteq> r_Method r"
  shows "next_fn ms r None (cur, w) = next_fn ms r None (cur + 1, w)"
  using assms by (subst next_fn.simps(2)) simp

lemma next_fn_hit:
  assumes "cur + 1 < int (length ms)" "cm_Method (ms ! nat (cur + 1)) = r_Method r"
  shows "next_fn ms r None (cur, w) =
         invoke ms r (cm_Handler (ms ! nat (cur + 1))) (cur + 1, w)"
  using assms by (subst next_fn.simps(2)) simp

lemma next_fn_end:
  assumes "int (length ms) \<le> cur + 1"
  shows "next_fn ms r None (cur, w) = (cur + 1, WriteHeader 404 w)"
  using assms by (subst next_fn.simps(2)) simp

text \<open>
  From any index, the scan runs to the first pair at or after the next index whose method
  is the request's, and invokes it there.
\<close>

lemma next_fn_scan_to_match:
  assumes "- 1 \<le> cur" "nat (cur + 1) \<le> i" "i < length ms"
    and "cm_Method (ms ! i) = r_Method r"
    and "\<forall>j. nat (cur + 1) \<le> j \<and> j < i \<longrightarrow> cm_Method (ms ! j) \<noteq> r_Method r"
  shows "next_fn ms r None (cur, w) = invoke ms r (cm_Handler (ms ! i)) (int i, w)"
  using assms
proof (induction "i - nat (cur + 1)" arbitrary: cur)
  case 0
  then have "cur + 1 = int i" by simp
  with 0 show ?case using next_fn_hit[of cur ms r w] by simp
next
  case (Suc k)
  then have lt: "nat (cur + 1) < i" by simp
  with Suc.prems have ne: "cm_Method (ms ! nat (cur + 1)) \<noteq> r_Method r" by simp
  have step: "next_fn ms r None (cur, w) = next_fn ms r None (cur + 1, w)"
    using lt Suc.prems(1,3) ne by (intro next_fn_skip) simp_all
  have "next_fn ms r None (cur + 1, w) = invoke ms r (cm_Handler (ms ! i)) (int i, w)"
  proof (rule Suc.hyps(1))
    show "k = i - nat (cur + 1 + 1)" using Suc.hyps(2) Suc.prems(1) by linarith
    show "- 1 \<le> cur + 1" using Suc.prems(1) by simp
    show "nat (cur + 1 + 1) \<le> i" using lt Suc.prems(1) by linarith
    show "i < length ms" by fact
    show "cm_Method (ms ! i) = r_Method r" by fact
    show "\<forall>j. nat (cur + 1 + 1) \<le> j \<and> j < i \<longrightarrow> cm_Method (ms ! j) \<noteq> r_Method r"
    proof (intro allI impI)
      fix j assume "nat (cur + 1 + 1) \<le> j \<and> j < i"
      then have "nat (cur + 1) \<le> j \<and> j < i" using Suc.prems(1) by linarith
      then show "cm_Method (ms ! j) \<noteq> r_Method r" using Suc.prems(5) by blast
    qed
  qed
  with step show ?case by simp
qed

lemma next_fn_no_match:
  assumes "- 1 \<le> cur" "nat (cur + 1) \<le> length ms"
    and "\<forall>j. nat (cur + 1) \<le> j \<and> j < length ms \<longrightarrow> cm_Method (ms ! j) \<noteq> r_Method r"
  shows "next_fn ms r None (cur, w) = (int (length ms), WriteHeader 404 w)"
  using assms
proof (induction "length ms - nat (cur + 1)" arbitrary: cur)
  case 0
  then have "cur + 1 = int (length ms)" by simp
  then show ?case using next_fn_end[of ms cur r w] by simp
next
  case (Suc k)
  then have lt: "nat (cur + 1) < length ms" by simp
  with Suc.prems have ne: "cm_Method (ms ! nat (cur + 1)) \<noteq> r_Method r" by simp
  have step: "next_fn ms r None (cur, w) = next_fn ms r None (cur + 1, w)"
    using lt Suc.prems(1) ne by (intro next_fn_skip) simp_all
  have "next_fn ms r None (cur + 1, w) = (int (length ms), WriteHeader 404 w)"
  proof (rule Suc.hyps(1))
    show "k = length ms - nat (cur + 1 + 1)" using Suc.hyps(2) Suc.prems(1) by linarith
    show "- 1 \<le> cur + 1" using Suc.prems(1) by simp
    show "nat (cur + 1 + 1) \<le> length ms" using lt Suc.prems(1) by linarith
    show "\<forall>j. nat (cur + 1 + 1) \<le> j \<and> j < length ms \<longrightarrow> cm_Method (ms ! j) \<noteq> r_Method r"
    proof (intro allI impI)
      fix j assume "nat (cur + 1 + 1) \<le> j \<and> j < length ms"
      then have "nat (cur + 1) \<le> j \<and> j < length ms" using Suc.prems(1) by linarith
      then show "cm_Method (ms ! j) \<noteq> r_Method r" using Suc.prems(3) by blast
    qed
  qed
  with step show ?case by simp
qed


lemma first_match_from_start:
  assumes "i < length ms" "cm_Method (ms ! i) = r_Method r"
    and "\<forall>j<i. cm_Method (ms ! j) \<noteq> r_Method r"
  shows "next_fn ms r None (- 1, w) = invoke ms r (cm_Handler (ms ! i)) (int i, w)"
  using assms by (intro next_fn_scan_to_match) simp_all

section \<open>Properties of the route table\<close>

lemma handleMockResponse_Inr:
  assumes "handleMockResponse P d = Inr h"
  shows "\<exists>b. serialize P (Body (Response d)) = Inr b \<and>
           h = MockResponse d
                 (if StatusCode (Response d) = 0 then 200 else StatusCode (Response d)) b"
  using assms by (auto simp: handleMockResponse_def Let_def split: sum.splits)

text \<open>
  One turn of the loop of \<^verbatim>\<open>main\<close> that does not end the process: either the endpoint is
  new, and its dispatcher is registered, or it has an entry already.
\<close>

lemma main_routes_Cons [consumes 1, case_names fresh known]:
  assumes "main_routes P (d # defs) (rc, mux) = Inr (rc', mux')"
  obtains (fresh) h where
      "rc (Endpoint d) = None" "handleMockResponse P d = Inr h"
      "Endpoint d \<noteq> []" "mux_accepts P (map fst mux) (Endpoint d)"
      "main_routes P defs
         (rc(Endpoint d \<mapsto> \<lparr>rc_Handler = HandlerFunc d,
               rc_Middleware = [\<lparr>cm_Method = Method d, cm_Handler = h\<rparr>]\<rparr>),
          mux @ [(Endpoint d, HandlerFunc d)]) = Inr (rc', mux')"
  | (known) chain h where
      "rc (Endpoint d) = Some chain" "handleMockResponse P d = Inr h"
      "main_routes P defs
         (rc(Endpoint d \<mapsto> \<lparr>rc_Handler = rc_Handler chain,
               rc_Middleware =
                 rc_Middleware chain @ [\<lparr>cm_Method = Method d, cm_Handler = h\<rparr>]\<rparr>),
          mux) = Inr (rc', mux')"
proof (cases "handleMockResponse P d")
  case (Inl err)
  with assms show thesis
    by (auto simp: generateMockHandler_def Let_def split: option.splits)
next
  case (Inr h)
  show thesis
  proof (cases "rc (Endpoint d)")
    case None
    with Inr assms show thesis
      by (intro fresh[of h])
        (auto simp: generateMockHandler_def HandleFunc_def Let_def split: if_splits)
  next
    case (Some chain)
    with Inr assms show thesis
      by (intro known[of chain h]) (auto simp: generateMockHandler_def Let_def)
  qed
qed


lemma main_routes_Middleware:
  assumes "main_routes P defs (rc, mux) = Inr (rc', mux')"
  shows "\<exists>new. Middleware_at rc' e = Middleware_at rc e @ new \<and>
           list_all2 (\<lambda>d m. cm_Method m = Method d \<and> handleMockResponse P d = Inr (cm_Handler m))
             (filter (\<lambda>d. Endpoint d = e) defs) new"
  using assms
proof (induction defs arbitrary: rc mux)
  case Nil
  then show ?case by simp
next
  case (Cons d defs)
  from Cons.prems show ?case
  proof (cases rule: main_routes_Cons)
    case (fresh h)
    let ?rc1 = "rc(Endpoint d \<mapsto> \<lparr>rc_Handler = HandlerFunc d,
                    rc_Middleware = [\<lparr>cm_Method = Method d, cm_Handler = h\<rparr>]\<rparr>)"
    from Cons.IH[OF fresh(5)] obtain new where new:
      "Middleware_at rc' e = Middleware_at ?rc1 e @ new"
      "list_all2 (\<lambda>d m. cm_Method m = Method d \<and> handleMockResponse P d = Inr (cm_Handler m))
         (filter (\<lambda>d. Endpoint d = e) defs) new"
      by blast
    show ?thesis
    proof (cases "Endpoint d = e")
      case True
      with fresh(1) have "Middleware_at ?rc1 e =
          Middleware_at rc e @ [\<lparr>cm_Method = Method d, cm_Handler = h\<rparr>]"
        by (simp add: Middleware_at_def)
      with new True fresh(2) show ?thesis
        by (intro exI[of _ "\<lparr>cm_Method = Method d, cm_Handler = h\<rparr> # new"]) simp
    next
      case False
      then have "Middleware_at ?rc1 e = Middleware_at rc e"
        by (simp add: Middleware_at_def)
      with new False show ?thesis by (intro exI[of _ new]) simp
    qed
  next
    case (known chain h)
    let ?rc1 = "rc(Endpoint d \<mapsto> \<lparr>rc_Handler = rc_Handler chain,
                    rc_Middleware =
                      rc_Middleware chain @ [\<lparr>cm_Method = Method d, cm_Handler = h\<rparr>]\<rparr>)"
    from Cons.IH[OF known(3)] obtain new where new:
      "Middleware_at rc' e = Middleware_at ?rc1 e @ new"
      "list_all2 (\<lambda>d m. cm_Method m = Method d \<and> handleMockResponse P d = Inr (cm_Handler m))
         (filter (\<lambda>d. Endpoint d = e) defs) new"
      by blast
    show ?thesis
    proof (cases "Endpoint d = e")
      case True
      with known(1) have "Middleware_at ?rc1 e =
          Middleware_at rc e @ [\<lparr>cm_Method = Method d, cm_Handler = h\<rparr>]"
        by (simp add: Middleware_at_def)
      with new True known(2) show ?thesis
        by (intro exI[of _ "\<lparr>cm_Method = Method d, cm_Handler = h\<rparr> # new"]) simp
    next
      case False
      then have "Middleware_at ?rc1 e = Middleware_at rc e"
        by (simp add: Middleware_at_def)
      with new False show ?thesis by (intro exI[of _ new]) simp
    qed
  qed
qed


lemma main_routes_Handler_kept:
  assumes "main_routes P defs (rc, mux) = Inr (rc', mux')" "rc e = Some c"
  shows "\<exists>c'. rc' e = Some c' \<and> rc_Handler c' = rc_Handler c"
  using assms
proof (induction defs arbitrary: rc mux c)
  case Nil
  then show ?case by simp
next
  case (Cons d defs)
  from Cons.prems(1) show ?case
  proof (cases rule: main_routes_Cons)
    case (fresh h)
    let ?rc1 = "rc(Endpoint d \<mapsto> \<lparr>rc_Handler = HandlerFunc d,
                    rc_Middleware = [\<lparr>cm_Method = Method d, cm_Handler = h\<rparr>]\<rparr>)"
    from fresh(1) Cons.prems(2) have "Endpoint d \<noteq> e" by auto
    then have "?rc1 e = Some c" using Cons.prems(2) by simp
    from Cons.IH[OF fresh(5) this] show ?thesis .
  next
    case (known chain h)
    let ?rc1 = "rc(Endpoint d \<mapsto> \<lparr>rc_Handler = rc_Handler chain,
                    rc_Middleware =
                      rc_Middleware chain @ [\<lparr>cm_Method = Method d, cm_Handler = h\<rparr>]\<rparr>)"
    show ?thesis
    proof (cases "Endpoint d = e")
      case True
      with known(1) Cons.prems(2) have "chain = c" by simp
      with True have "?rc1 e = Some \<lparr>rc_Handler = rc_Handler c,
                    rc_Middleware =
                      rc_Middleware c @ [\<lparr>cm_Method = Method d, cm_Handler = h\<rparr>]\<rparr>"
        by simp
      from Cons.IH[OF known(3) this] show ?thesis by simp
    next
      case False
      then have "?rc1 e = Some c" using Cons.prems(2) by simp
      from Cons.IH[OF known(3) this] show ?thesis .
    qed
  qed
qed

lemma main_routes_mux:
  assumes "main_routes P defs (rc, mux) = Inr (rc', mux')"
  shows "\<exists>new. mux' = mux @ new \<and> distinct (map fst new) \<and>
           set (map fst new) = Endpoint ` set defs - dom rc \<and>
           (\<forall>(e, h) \<in> set new.
              h = HandlerFunc (hd (filter (\<lambda>d. Endpoint d = e) defs)) \<and>
              (\<exists>c. rc' e = Some c \<and> rc_Handler c = h))"
  using assms
proof (induction defs arbitrary: rc mux)
  case Nil
  then show ?case by simp
next
  case (Cons d defs)
  from Cons.prems show ?case
  proof (cases rule: main_routes_Cons)
    case (fresh h)
    let ?rc1 = "rc(Endpoint d \<mapsto> \<lparr>rc_Handler = HandlerFunc d,
                    rc_Middleware = [\<lparr>cm_Method = Method d, cm_Handler = h\<rparr>]\<rparr>)"
    note run = fresh(5)
    from Cons.IH[OF run] obtain new where new:
      "mux' = (mux @ [(Endpoint d, HandlerFunc d)]) @ new"
      "distinct (map fst new)"
      "set (map fst new) = Endpoint ` set defs - dom ?rc1"
      "\<forall>(e, h) \<in> set new.
              h = HandlerFunc (hd (filter (\<lambda>d. Endpoint d = e) defs)) \<and>
              (\<exists>c. rc' e = Some c \<and> rc_Handler c = h)"
      by blast
    have kept: "\<exists>c'. rc' (Endpoint d) = Some c' \<and> rc_Handler c' = HandlerFunc d"
      using main_routes_Handler_kept[OF run, of "Endpoint d"] by simp
    have notin: "Endpoint d \<notin> set (map fst new)" using new(3) by simp
    have others: "\<forall>(e, h) \<in> set new.
              h = HandlerFunc (hd (filter (\<lambda>x. Endpoint x = e) (d # defs))) \<and>
              (\<exists>c. rc' e = Some c \<and> rc_Handler c = h)"
    proof (intro ballI, clarify)
      fix e g assume eg: "(e, g) \<in> set new"
      then have "e \<in> set (map fst new)" by force
      with notin have "Endpoint d \<noteq> e" by auto
      with eg new(4) show "g = HandlerFunc (hd (filter (\<lambda>x. Endpoint x = e) (d # defs))) \<and>
              (\<exists>c. rc' e = Some c \<and> rc_Handler c = g)" by auto
    qed
    show ?thesis
    proof (intro exI[of _ "(Endpoint d, HandlerFunc d) # new"] conjI)
      show "mux' = mux @ (Endpoint d, HandlerFunc d) # new"
        using new(1) by simp
      show "distinct (map fst ((Endpoint d, HandlerFunc d) # new))"
        using new(2) notin by simp
      show "set (map fst ((Endpoint d, HandlerFunc d) # new)) = Endpoint ` set (d # defs) - dom rc"
        using new(3) fresh(1) by auto
      show "\<forall>(e, h)\<in>set ((Endpoint d, HandlerFunc d) # new).
         h = HandlerFunc (hd (filter (\<lambda>x. Endpoint x = e) (d # defs))) \<and>
         (\<exists>c. rc' e = Some c \<and> rc_Handler c = h)"
        using others kept by simp
    qed
  next
    case (known chain h)
    let ?rc1 = "rc(Endpoint d \<mapsto> \<lparr>rc_Handler = rc_Handler chain,
                    rc_Middleware =
                      rc_Middleware chain @ [\<lparr>cm_Method = Method d, cm_Handler = h\<rparr>]\<rparr>)"
    note run = known(3)
    from Cons.IH[OF run] obtain new where new:
      "mux' = mux @ new"
      "distinct (map fst new)"
      "set (map fst new) = Endpoint ` set defs - dom ?rc1"
      "\<forall>(e, h) \<in> set new.
              h = HandlerFunc (hd (filter (\<lambda>d. Endpoint d = e) defs)) \<and>
              (\<exists>c. rc' e = Some c \<and> rc_Handler c = h)"
      by blast
    have indom: "Endpoint d \<in> dom rc" using known(1) by auto
    then have dom1: "dom ?rc1 = dom rc" by auto
    have notin: "Endpoint d \<notin> set (map fst new)" using new(3) by simp
    have others: "\<forall>(e, h) \<in> set new.
              h = HandlerFunc (hd (filter (\<lambda>x. Endpoint x = e) (d # defs))) \<and>
              (\<exists>c. rc' e = Some c \<and> rc_Handler c = h)"
    proof (intro ballI, clarify)
      fix e g assume eg: "(e, g) \<in> set new"
      then have "e \<in> set (map fst new)" by force
      with notin have "Endpoint d \<noteq> e" by auto
      with eg new(4) show "g = HandlerFunc (hd (filter (\<lambda>x. Endpoint x = e) (d # defs))) \<and>
              (\<exists>c. rc' e = Some c \<and> rc_Handler c = g)" by auto
    qed
    show ?thesis
    proof (intro exI[of _ new] conjI)
      show "mux' = mux @ new" by fact
      show "distinct (map fst new)" by fact
      show "set (map fst new) = Endpoint ` set (d # defs) - dom rc"
        using new(3) indom unfolding dom1 by auto
      show "\<forall>(e, h)\<in>set new.
         h = HandlerFunc (hd (filter (\<lambda>x. Endpoint x = e) (d # defs))) \<and>
         (\<exists>c. rc' e = Some c \<and> rc_Handler c = h)"
        by (rule others)
    qed
  qed
qed

text \<open>
  What the multiplexer refuses ends the construction: a definition of a new endpoint
  whose pattern is empty (a document with no \<^verbatim>\<open>endpoint\<close> member gives one) makes
  \<^verbatim>\<open>mux.HandleFunc\<close> panic.
\<close>

lemma empty_endpoint_panics:
  assumes "Endpoint mock = []" "routeChain [] = None" "handleMockResponse P mock = Inr h"
  shows "main_routes P (mock # defs) (routeChain, mux) = Inl (Panic [])"
  using assms by (simp add: generateMockHandler_def HandleFunc_def Let_def)

section \<open>The specification of dispatch and of the route table\<close>

lemma example_routes:
  "main_routes example_platform example_defs (Map.empty, []) = Inr (routeChain, mux) \<Longrightarrow>
   mux = [(''/users'', HandlerFunc (example_defs ! 0)), (''/health'', HandlerFunc (example_defs ! 2))] \<and>
   Middleware_at routeChain ''/users'' =
     [\<lparr>cm_Method = ''GET'', cm_Handler = MockResponse (example_defs ! 0) 200 ''first''\<rparr>,
      \<lparr>cm_Method = ''POST'', cm_Handler = MockResponse (example_defs ! 1) 201 ''<nil>''\<rparr>,
      \<lparr>cm_Method = ''GET'', cm_Handler = MockResponse (example_defs ! 3) 202 ''second''\<rparr>]"
  by (auto simp add: example_defs_def example_platform_def generateMockHandler_def
      handleMockResponse_def serialize_def json_Marshal_def HandleFunc_def Middleware_at_def
      Let_def split: sum.splits if_splits)

lemma example_routes_run:
  "\<exists>routeChain mux.
     main_routes example_platform example_defs (Map.empty, []) = Inr (routeChain, mux)"
  by (simp add: example_defs_def example_platform_def generateMockHandler_def
      handleMockResponse_def serialize_def json_Marshal_def HandleFunc_def Let_def
      json_string_def json_escape_byte_def dquote_def bslash_def float64_1_def)

text \<open>
  C1. Let the route table be built from the loaded definitions, let \<open>ds\<close> be the definitions
  of endpoint \<open>e\<close> in load order, and let \<open>i\<close> be the least index with the method of the
  request. Then the dispatcher registered for \<open>e\<close> answers the request with exactly the
  response of \<open>ds ! i\<close>: the closure that \<^verbatim>\<open>handleMockResponse\<close> built for it, run on the
  writer. A later definition with the same method is never reached.
\<close>

theorem first_matching_definition_answers:
  assumes "main_routes P defs (Map.empty, []) = Inr (routeChain, mux)"
    and "(e, h) \<in> set mux"
    and "filter (\<lambda>d. Endpoint d = e) defs = ds"
    and "i < length ds"
    and "Method (ds ! i) = r_Method r"
    and "\<forall>j<i. Method (ds ! j) \<noteq> r_Method r"
  shows "\<exists>statusCode serializedBody.
           handleMockResponse P (ds ! i) = Inr (MockResponse (ds ! i) statusCode serializedBody) \<and>
           handler routeChain h w r = mockResponse (ds ! i) statusCode serializedBody w"
proof -
  let ?R = "\<lambda>d m. cm_Method m = Method d \<and> handleMockResponse P d = Inr (cm_Handler m)"
  from main_routes_mux[OF assms(1)] assms(2)
  have h: "h = HandlerFunc (hd (filter (\<lambda>d. Endpoint d = e) defs))"
    by auto
  from assms(3,4) have "filter (\<lambda>d. Endpoint d = e) defs \<noteq> []" by auto
  then have "hd (filter (\<lambda>d. Endpoint d = e) defs) \<in> set (filter (\<lambda>d. Endpoint d = e) defs)"
    by (rule hd_in_set)
  then have e: "Endpoint (hd (filter (\<lambda>d. Endpoint d = e) defs)) = e" by simp
  from main_routes_Middleware[OF assms(1), of e] assms(3)
  have rel: "list_all2 ?R ds (Middleware_at routeChain e)"
    by (simp add: Middleware_at_def)
  let ?ms = "Middleware_at routeChain e"
  from rel have len: "length ?ms = length ds" by (simp add: list_all2_lengthD)
  from rel assms(4) have at: "?R (ds ! i) (?ms ! i)" by (rule list_all2_nthD)
  have front: "\<forall>j<i. cm_Method (?ms ! j) \<noteq> r_Method r"
  proof (intro allI impI)
    fix j assume "j < i"
    with assms(4) have "j < length ds" by simp
    with rel have "?R (ds ! j) (?ms ! j)" by (rule list_all2_nthD)
    with assms(6) \<open>j < i\<close> show "cm_Method (?ms ! j) \<noteq> r_Method r" by simp
  qed
  have scan: "next_fn ?ms r None (- 1, w) = invoke ?ms r (cm_Handler (?ms ! i)) (int i, w)"
    using assms(4,5) at front len by (intro first_match_from_start) simp_all
  from at have built: "handleMockResponse P (ds ! i) = Inr (cm_Handler (?ms ! i))" by simp
  from handleMockResponse_Inr[OF built] obtain b where b: "cm_Handler (?ms ! i) =
      MockResponse (ds ! i)
        (if StatusCode (Response (ds ! i)) = 0 then 200 else StatusCode (Response (ds ! i))) b"
    by blast
  with scan h e have "handler routeChain h w r =
      mockResponse (ds ! i)
        (if StatusCode (Response (ds ! i)) = 0 then 200 else StatusCode (Response (ds ! i))) b w"
    by simp
  with b built show ?thesis by auto
qed

text \<open>
  On the example, \<^verbatim>\<open>GET /users\<close> is answered by the first definition (status 200, body
  \<^verbatim>\<open>first\<close>), not by the fourth, which has the same endpoint and method.
\<close>

theorem first_matching_definition_answers_witness:
  "\<exists>routeChain mux h.
     main_routes example_platform example_defs (Map.empty, []) = Inr (routeChain, mux) \<and>
     (''/users'', h) \<in> set mux \<and>
     handler routeChain h new_ResponseWriter example_get =
       mockResponse (example_defs ! 0) 200 ''first'' new_ResponseWriter \<and>
     rw_WriteHeader (handler routeChain h new_ResponseWriter example_get) = [200] \<and>
     rw_Write (handler routeChain h new_ResponseWriter example_get) = ''first''"
proof -
  obtain routeChain mux where
    run: "main_routes example_platform example_defs (Map.empty, []) = Inr (routeChain, mux)"
    using example_routes_run by blast
  let ?h = "HandlerFunc (example_defs ! 0)"
  let ?ds = "[example_defs ! 0, example_defs ! 1, example_defs ! 3]"
  have mem: "(''/users'', ?h) \<in> set mux"
    using example_routes[OF run] by simp
  have ds: "filter (\<lambda>d. Endpoint d = ''/users'') example_defs = ?ds"
    by (simp add: example_defs_def)
  have "\<exists>statusCode serializedBody.
           handleMockResponse example_platform (?ds ! 0) =
             Inr (MockResponse (?ds ! 0) statusCode serializedBody) \<and>
           handler routeChain ?h new_ResponseWriter example_get =
             mockResponse (?ds ! 0) statusCode serializedBody new_ResponseWriter"
    using first_matching_definition_answers[OF run mem ds, of 0 example_get new_ResponseWriter]
    by (simp add: example_defs_def example_get_def)
  then have res: "handler routeChain ?h new_ResponseWriter example_get =
             mockResponse (example_defs ! 0) 200 ''first'' new_ResponseWriter"
    by (simp add: example_defs_def handleMockResponse_def serialize_def)
  have "rw_WriteHeader (mockResponse (example_defs ! 0) 200 ''first'' new_ResponseWriter) = [200]"
    "rw_Write (mockResponse (example_defs ! 0) 200 ''first'' new_ResponseWriter) = ''first''"
    by (simp_all add: mockResponse_def example_defs_def new_ResponseWriter_def Header_Add_def
        WriteHeader_def Write_def)
  with run mem res show ?thesis by metis
qed

text \<open>
  C3. When no pair of the endpoint has the method of the request, the chain scans every
  pair (the index ends at the length of the list), calls \<^verbatim>\<open>WriteHeader(404)\<close> and nothing
  else: on a fresh writer the response is status 404, no header added, empty body. The
  functions are total, so the chain ends.
\<close>

theorem unmatched_method_not_found:
  assumes "\<forall>m \<in> set (Middleware_at routeChain (Endpoint mock)). cm_Method m \<noteq> r_Method r"
  shows "next_fn (Middleware_at routeChain (Endpoint mock)) r None (- 1, w) =
           (int (length (Middleware_at routeChain (Endpoint mock))), WriteHeader 404 w) \<and>
         handler routeChain (HandlerFunc mock) w r = WriteHeader 404 w \<and>
         handler routeChain (HandlerFunc mock) new_ResponseWriter r =
           \<lparr>rw_Header = {#}, rw_WriteHeader = [404], rw_Write = []\<rparr>"
proof -
  let ?ms = "Middleware_at routeChain (Endpoint mock)"
  have scan: "next_fn ?ms r None (- 1, w) = (int (length ?ms), WriteHeader 404 w)" for w
    using assms by (intro next_fn_no_match) simp_all
  then have "handler routeChain (HandlerFunc mock) w r = WriteHeader 404 w" for w
    by simp
  with scan show ?thesis
    by (simp add: WriteHeader_def new_ResponseWriter_def)
qed

theorem unmatched_method_not_found_witness:
  "\<exists>routeChain mux.
     main_routes example_platform example_defs (Map.empty, []) = Inr (routeChain, mux) \<and>
     (\<forall>m \<in> set (Middleware_at routeChain ''/users''). cm_Method m \<noteq> ''DELETE'') \<and>
     length (Middleware_at routeChain ''/users'') = 3 \<and>
     next_fn (Middleware_at routeChain ''/users'') example_delete None (- 1, new_ResponseWriter) =
       (3, \<lparr>rw_Header = {#}, rw_WriteHeader = [404], rw_Write = []\<rparr>) \<and>
     handler routeChain (HandlerFunc (example_defs ! 0)) new_ResponseWriter example_delete =
       \<lparr>rw_Header = {#}, rw_WriteHeader = [404], rw_Write = []\<rparr>"
proof -
  obtain routeChain mux where
    run: "main_routes example_platform example_defs (Map.empty, []) = Inr (routeChain, mux)"
    using example_routes_run by blast
  have ep: "Endpoint (example_defs ! 0) = ''/users''" by (simp add: example_defs_def)
  have ms: "Middleware_at routeChain ''/users'' =
     [\<lparr>cm_Method = ''GET'', cm_Handler = MockResponse (example_defs ! 0) 200 ''first''\<rparr>,
      \<lparr>cm_Method = ''POST'', cm_Handler = MockResponse (example_defs ! 1) 201 ''<nil>''\<rparr>,
      \<lparr>cm_Method = ''GET'', cm_Handler = MockResponse (example_defs ! 3) 202 ''second''\<rparr>]"
    using example_routes[OF run] by simp
  have none: "\<forall>m \<in> set (Middleware_at routeChain (Endpoint (example_defs ! 0))).
      cm_Method m \<noteq> r_Method example_delete"
    unfolding ep ms by (simp add: example_delete_def)
  from unmatched_method_not_found[OF none, of new_ResponseWriter] run none ms show ?thesis
    unfolding ep by (simp add: example_delete_def WriteHeader_def new_ResponseWriter_def)
qed








section \<open>Properties of the renderer\<close>

lemma foldl_Header_Add:
  "foldl (\<lambda>w (key, val). Header_Add key val w) w hs =
     w\<lparr>rw_Header := rw_Header w + mset (map (\<lambda>(k, v). (CanonicalMIMEHeaderKey k, v)) hs)\<rparr>"
  by (induction hs arbitrary: w) (auto simp: Header_Add_def)





lemma CanonicalMIMEHeaderKey_examples:
  "CanonicalMIMEHeaderKey ''Content-Type'' = ''Content-Type''"
  "CanonicalMIMEHeaderKey ''Server'' = ''Server''"
  "CanonicalMIMEHeaderKey ''content-type'' = ''Content-Type''"
  "CanonicalMIMEHeaderKey ''X-Mock'' = ''X-Mock''"
  by (simp_all add: CanonicalMIMEHeaderKey_def validHeaderFieldByte_def to_upper_def
      to_lower_def Let_def)

lemma mockResponse_WriteHeader:
  "rw_WriteHeader (mockResponse mock statusCode body w) = rw_WriteHeader w @ [statusCode]"
  by (simp add: mockResponse_def Let_def foldl_Header_Add WriteHeader_def Write_def)

lemma mockResponse_Write:
  "rw_Write (mockResponse mock statusCode body w) = rw_Write w @ body"
  by (simp add: mockResponse_def Let_def foldl_Header_Add WriteHeader_def Write_def)


lemma handleMockResponse_invoke:
  assumes "handleMockResponse P mock = Inr h"
  shows "\<exists>body. serialize P (Body (Response mock)) = Inr body \<and>
           invoke ms r h (cur, w) =
             (cur, mockResponse mock
                     (if StatusCode (Response mock) = 0 then 200 else StatusCode (Response mock))
                     body w)"
  using handleMockResponse_Inr[OF assms] by auto

section \<open>Properties of the decoder\<close>

lemma fold_result_preserves:
  assumes "fold_result f xs s = Inr s'"
    and "\<And>x t t'. x \<in> set xs \<Longrightarrow> f x t = Inr t' \<Longrightarrow> g t' = g t"
  shows "g s' = g s"
  using assms
proof (induction xs arbitrary: s)
  case Nil
  then show ?case by simp
next
  case (Cons x xs)
  from Cons.prems(1) obtain t where t: "f x s = Inr t" "fold_result f xs t = Inr s'"
    by (auto split: sum.splits)
  have "g s' = g t"
  proof (rule Cons.IH[OF t(2)])
    fix y u u' assume "y \<in> set xs" "f y u = Inr u'"
    then show "g u' = g u" using Cons.prems(2)[of y u u'] by simp
  qed
  moreover from Cons.prems(2)[of x s t] t(1) have "g t = g s" by simp
  ultimately show ?case by simp
qed

lemma foldName_fields:
  "foldName ''body'' = ''BODY''" "foldName ''headers'' = ''HEADERS''"
  "foldName ''statusCode'' = ''STATUSCODE''" "foldName ''endpoint'' = ''ENDPOINT''"
  "foldName ''method'' = ''METHOD''" "foldName ''response'' = ''RESPONSE''"
  "foldName ''X-Mock'' = ''X-MOCK''" "foldName ''a'' = ''A''"
  by (simp_all add: to_upper_def)

declare foldName.simps [simp del]

lemma decode_response_field_StatusCode:
  assumes "decode_response_field P kv resp = Inr resp'"
    and "foldName (fst kv) = foldName ''statusCode'' \<longrightarrow> snd kv = JNull"
  shows "StatusCode resp' = StatusCode resp"
  using assms
  by (auto simp: decode_response_field_def Let_def foldName_fields decode_int_def
      split: if_splits sum.splits)

lemma decode_response_field_Body:
  assumes "decode_response_field P kv resp = Inr resp'"
    and "foldName (fst kv) = foldName ''body'' \<longrightarrow> snd kv = JNull"
    and "Body resp = VNil"
  shows "Body resp' = VNil"
  using assms
  by (auto simp: decode_response_field_def Let_def foldName_fields
      split: if_splits sum.splits)

lemma decode_response_StatusCode:
  assumes "decode_response P v resp = Inr resp'"
    and "v = JNull \<or> (\<exists>fs. v = JObject fs \<and>
           (\<forall>f \<in> set fs. foldName (fst f) = foldName ''statusCode'' \<longrightarrow> snd f = JNull))"
  shows "StatusCode resp' = StatusCode resp"
proof (cases v)
  case (JObject fs)
  with assms(1) have run: "fold_result (decode_response_field P) fs resp = Inr resp'"
    by (simp add: decode_response_def)
  from assms(2) JObject
  have ok: "\<forall>f \<in> set fs. foldName (fst f) = foldName ''statusCode'' \<longrightarrow> snd f = JNull"
    by simp
  show ?thesis
  proof (rule fold_result_preserves[OF run])
    fix f t t' assume "f \<in> set fs" "decode_response_field P f t = Inr t'"
    with ok show "StatusCode t' = StatusCode t"
      by (intro decode_response_field_StatusCode[of P f t t']) auto
  qed
qed (use assms in \<open>auto simp: decode_response_def\<close>)

lemma fold_result_invariant:
  assumes "fold_result f xs s = Inr s'" "Q s"
    and "\<And>x t t'. x \<in> set xs \<Longrightarrow> f x t = Inr t' \<Longrightarrow> Q t \<Longrightarrow> Q t'"
  shows "Q s'"
  using assms
proof (induction xs arbitrary: s)
  case Nil
  then show ?case by simp
next
  case (Cons x xs)
  from Cons.prems(1) obtain t where t: "f x s = Inr t" "fold_result f xs t = Inr s'"
    by (auto split: sum.splits)
  from Cons.prems(3)[of x s t] t(1) Cons.prems(2) have "Q t" by simp
  show ?case
  proof (rule Cons.IH[OF t(2) \<open>Q t\<close>])
    fix y u u' assume "y \<in> set xs" "f y u = Inr u'" "Q u"
    then show "Q u'" using Cons.prems(3)[of y u u'] by simp
  qed
qed

lemma decode_response_Body:
  assumes "decode_response P v resp = Inr resp'"
    and "v = JNull \<or> (\<exists>fs. v = JObject fs \<and>
           (\<forall>f \<in> set fs. foldName (fst f) = foldName ''body'' \<longrightarrow> snd f = JNull))"
    and "Body resp = VNil"
  shows "Body resp' = VNil"
proof (cases v)
  case (JObject fs)
  with assms(1) have run: "fold_result (decode_response_field P) fs resp = Inr resp'"
    by (simp add: decode_response_def)
  from assms(2) JObject
  have ok: "\<forall>f \<in> set fs. foldName (fst f) = foldName ''body'' \<longrightarrow> snd f = JNull"
    by simp
  show ?thesis
  proof (rule fold_result_invariant[OF run, where Q = "\<lambda>t. Body t = VNil"])
    show "Body resp = VNil" by fact
    fix f t t' assume "f \<in> set fs" "decode_response_field P f t = Inr t'" "Body t = VNil"
    with ok show "Body t' = VNil"
      by (intro decode_response_field_Body[of P f t t']) auto
  qed
qed (use assms in \<open>auto simp: decode_response_def\<close>)

lemma omits_member:
  assumes "omits field kvs" "kv \<in> set kvs" "foldName (fst kv) = foldName ''response''"
  shows "snd kv = JNull \<or> (\<exists>fs. snd kv = JObject fs \<and>
           (\<forall>f \<in> set fs. foldName (fst f) = foldName field \<longrightarrow> snd f = JNull))"
proof -
  from assms have c: "case snd kv of
           JNull \<Rightarrow> True
         | JObject fs \<Rightarrow>
             list_all (\<lambda>f. foldName (fst f) \<noteq> foldName field \<or> snd f = JNull) fs
         | _ \<Rightarrow> False"
    by (auto simp: omits_def list_all_iff)
  then show ?thesis
    by (cases "snd kv") (auto simp: list_all_iff)
qed

lemma decode_mock_field_StatusCode:
  assumes "decode_mock_field P kv m = Inr m'"
    and "foldName (fst kv) = foldName ''response'' \<longrightarrow>
         snd kv = JNull \<or> (\<exists>fs. snd kv = JObject fs \<and>
           (\<forall>f \<in> set fs. foldName (fst f) = foldName ''statusCode'' \<longrightarrow> snd f = JNull))"
  shows "StatusCode (Response m') = StatusCode (Response m)"
  using assms
  by (auto simp: decode_mock_field_def Let_def foldName_fields
      split: if_splits sum.splits dest: decode_response_StatusCode)

lemma decode_mock_field_Body:
  assumes "decode_mock_field P kv m = Inr m'"
    and "foldName (fst kv) = foldName ''response'' \<longrightarrow>
         snd kv = JNull \<or> (\<exists>fs. snd kv = JObject fs \<and>
           (\<forall>f \<in> set fs. foldName (fst f) = foldName ''body'' \<longrightarrow> snd f = JNull))"
    and "Body (Response m) = VNil"
  shows "Body (Response m') = VNil"
  using assms
  by (auto simp: decode_mock_field_def Let_def foldName_fields
      split: if_splits sum.splits dest: decode_response_Body)

lemma Unmarshal_mock_omits_statusCode:
  assumes "Unmarshal_mock P (JObject kvs) = Inr mock" "omits ''statusCode'' kvs"
  shows "StatusCode (Response mock) = 0"
proof -
  from assms(1) have run: "fold_result (decode_mock_field P) kvs zero_MockDefinition = Inr mock"
    by (simp add: Unmarshal_mock_def decode_mock_def)
  have "StatusCode (Response mock) = StatusCode (Response zero_MockDefinition)"
  proof (rule fold_result_preserves[OF run])
    fix kv t t' assume "kv \<in> set kvs" "decode_mock_field P kv t = Inr t'"
    with omits_member[OF assms(2), of kv]
    show "StatusCode (Response t') = StatusCode (Response t)"
      by (intro decode_mock_field_StatusCode[of P kv t t']) auto
  qed
  then show ?thesis by (simp add: zero_MockDefinition_def)
qed

lemma Unmarshal_mock_omits_body:
  assumes "Unmarshal_mock P (JObject kvs) = Inr mock" "omits ''body'' kvs"
  shows "Body (Response mock) = VNil"
proof -
  from assms(1) have run: "fold_result (decode_mock_field P) kvs zero_MockDefinition = Inr mock"
    by (simp add: Unmarshal_mock_def decode_mock_def)
  show ?thesis
  proof (rule fold_result_invariant[OF run, where Q = "\<lambda>m. Body (Response m) = VNil"])
    show "Body (Response zero_MockDefinition) = VNil" by (simp add: zero_MockDefinition_def)
    fix kv t t' assume "kv \<in> set kvs" "decode_mock_field P kv t = Inr t'" "Body (Response t) = VNil"
    with omits_member[OF assms(2), of kv]
    show "Body (Response t') = VNil"
      by (intro decode_mock_field_Body[of P kv t t']) auto
  qed
qed

section \<open>The specification of the rendered response\<close>

lemma example_floats:
  "strconv_ParseFloat example_platform ''1'' = Some float64_1"
  "strconv_ParseFloat example_platform ''1.5'' = Some float64_1_5"
  "json_floatEncoder example_platform float64_1 = Some ''1''"
  "json_floatEncoder example_platform float64_1_5 = Some ''1.5''"
  "strconv_FormatFloat example_platform float64_1 = ''1''"
  "strconv_FormatFloat example_platform float64_1_5 = ''1.5''"
  by (simp_all add: example_platform_def float64_1_def float64_1_5_def)

lemma strconv_ParseInt_examples:
  "strconv_ParseInt ''201'' = Some 201" "strconv_ParseInt ''0'' = Some 0"
  "strconv_ParseInt ''-7'' = Some (- 7)" "strconv_ParseInt ''1.5'' = None"
  "strconv_ParseInt ''1e2'' = None" "strconv_ParseInt ''9223372036854775808'' = None"
  "strconv_ParseInt ''-9223372036854775808'' = Some (- 9223372036854775808)"
  by (simp_all add: strconv_ParseInt_def digit_value_def Let_def)

lemma Unmarshal_example_object:
  "Unmarshal_mock P example_object =
     Inr \<lparr>Endpoint = ''/ping'', Method = ''GET'',
          Response = \<lparr>Body = VNil, Headers = [(''X-Mock'', ''1'')], StatusCode = 0\<rparr>\<rparr>"
  by (simp add: example_object_def example_members_def Unmarshal_mock_def decode_mock_def
      decode_mock_field_def
      decode_response_def decode_response_field_def decode_map_def decode_map_entry_def
      decode_string_def zero_MockDefinition_def foldName_fields Let_def)

lemma example_members_omit:
  "omits ''statusCode'' example_members" "omits ''body'' example_members"
  by (simp_all add: omits_def example_members_def foldName_fields)

lemma Unmarshal_example_array:
  "Unmarshal_list example_platform example_array =
     Inr [\<lparr>Endpoint = ''/items'', Method = ''GET'',
           Response = \<lparr>Body = VMap [(''a'', VFloat64 float64_1)], Headers = [], StatusCode = 0\<rparr>\<rparr>,
          \<lparr>Endpoint = ''/items'', Method = ''POST'',
           Response = \<lparr>Body = VString ''ok'', Headers = [], StatusCode = 201\<rparr>\<rparr>]"
  by (simp add: example_array_def Unmarshal_list_def decode_mock_def decode_mock_field_def
      decode_response_def decode_response_field_def decode_int_def
      decode_string_def zero_MockDefinition_def foldName_fields Let_def
      example_floats strconv_ParseInt_examples)

lemma encode_example_body:
  "json_floatEncoder P f = Some ''1'' \<Longrightarrow>
   json_encode P (VMap [(''a'', VFloat64 f)]) = Inr ''{\"a\":1}''"
  by (simp add: json_string_def json_escape_byte_def dquote_def bslash_def)

text \<open>
  C9. The responder built for a definition calls \<^verbatim>\<open>WriteHeader\<close> once, with 200 when the
  status code of the definition is 0 and with the status code otherwise; the code given is
  never 0. A definition decoded from a document that says nothing of \<^verbatim>\<open>statusCode\<close> has
  status code 0, so its response has status 200.
\<close>

theorem status_zero_is_200:
  assumes "handleMockResponse P mock = Inr h"
  shows "rw_WriteHeader (snd (invoke ms r h (cur, w))) =
           rw_WriteHeader w @
             [if StatusCode (Response mock) = 0 then 200 else StatusCode (Response mock)] \<and>
         (StatusCode (Response mock) = 0 \<longrightarrow>
            rw_WriteHeader (snd (invoke ms r h (cur, new_ResponseWriter))) = [200]) \<and>
         (StatusCode (Response mock) \<noteq> 0 \<longrightarrow>
            rw_WriteHeader (snd (invoke ms r h (cur, new_ResponseWriter))) =
              [StatusCode (Response mock)]) \<and>
         0 \<notin> set (rw_WriteHeader (snd (invoke ms r h (cur, new_ResponseWriter)))) \<and>
         (Unmarshal_mock P (JObject kvs) = Inr mock \<and> omits ''statusCode'' kvs \<longrightarrow>
            rw_WriteHeader (snd (invoke ms r h (cur, new_ResponseWriter))) = [200])"
proof -
  have code: "rw_WriteHeader (snd (invoke ms r h (cur, w))) =
           rw_WriteHeader w @
             [if StatusCode (Response mock) = 0 then 200 else StatusCode (Response mock)]" for w
    using handleMockResponse_invoke[OF assms, of ms r cur w]
    by (auto simp: mockResponse_WriteHeader)
  have omitted: "StatusCode (Response mock) = 0"
    if "Unmarshal_mock P (JObject kvs) = Inr mock \<and> omits ''statusCode'' kvs"
    using that Unmarshal_mock_omits_statusCode by blast
  show ?thesis
    using code[of w] code[of new_ResponseWriter] omitted
    by (auto simp: new_ResponseWriter_def)
qed

theorem status_zero_is_200_witness:
  "\<exists>mock h.
     Unmarshal_mock example_platform (JObject example_members) = Inr mock \<and>
     omits ''statusCode'' example_members \<and>
     handleMockResponse example_platform mock = Inr h \<and>
     rw_WriteHeader (snd (invoke [] example_get h (0, new_ResponseWriter))) = [200]"
proof -
  let ?mock = "\<lparr>Endpoint = ''/ping'', Method = ''GET'',
          Response = \<lparr>Body = VNil, Headers = [(''X-Mock'', ''1'')], StatusCode = 0\<rparr>\<rparr>"
  let ?h = "MockResponse ?mock 200 ''<nil>''"
  have h: "handleMockResponse example_platform ?mock = Inr ?h"
    by (simp add: handleMockResponse_def serialize_def)
  have doc: "Unmarshal_mock example_platform (JObject example_members) = Inr ?mock"
    using Unmarshal_example_object[of example_platform] by (simp add: example_object_def)
  from status_zero_is_200[OF h, of "[]" example_get 0 new_ResponseWriter example_members]
    doc example_members_omit(1)
  have "rw_WriteHeader (snd (invoke [] example_get ?h (0, new_ResponseWriter))) = [200]"
    by blast
  with h doc example_members_omit(1) show ?thesis
    by (intro exI[of _ ?mock] exI[of _ ?h]) simp
qed




text \<open>
  C4. The responder writes the body once: the JSON encoding of the body when it is a map
  (the keys sorted, no white space), and what \<^verbatim>\<open>fmt.Sprint\<close> prints for every other value:
  a string as its own bytes, \<^verbatim>\<open>true\<close> or \<^verbatim>\<open>false\<close>, a number as \<^verbatim>\<open>strconv\<close> formats it,
  an array as its elements printed the same way between brackets and separated by spaces,
  which is not JSON. On a platform that reads the literal \<^verbatim>\<open>1\<close> as a number it encodes as
  \<^verbatim>\<open>1\<close>, the body \<^verbatim>\<open>{"a":1}\<close> is written as the seven bytes \<^verbatim>\<open>{"a":1}\<close>; the body
  \<^verbatim>\<open>"ok"\<close> is written as the two bytes \<^verbatim>\<open>ok\<close>.
\<close>

theorem body_rendering:
  assumes "handleMockResponse P mock = Inr h"
  shows "(\<exists>body. rw_Write (snd (invoke ms r h (cur, w))) = rw_Write w @ body \<and>
            (case Body (Response mock) of
               VMap kvs \<Rightarrow> json_encode P (VMap kvs) = Inr body
             | _ \<Rightarrow> body = fmt_Sprint P (Body (Response mock)))) \<and>
         (strconv_ParseFloat P ''1'' = Some f \<and> json_floatEncoder P f = Some ''1'' \<and>
          decode_interface P (JObject [(''a'', JNumber ''1'')]) = Inr (Body (Response mock)) \<longrightarrow>
            rw_Write (snd (invoke ms r h (cur, new_ResponseWriter))) = ''{\"a\":1}'') \<and>
         (decode_interface P (JString s) = Inr (Body (Response mock)) \<longrightarrow>
            rw_Write (snd (invoke ms r h (cur, new_ResponseWriter))) = s) \<and>
         (decode_interface P (JString ''ok'') = Inr (Body (Response mock)) \<longrightarrow>
            rw_Write (snd (invoke ms r h (cur, new_ResponseWriter))) = ''ok'' \<and>
            length (rw_Write (snd (invoke ms r h (cur, new_ResponseWriter)))) = 2) \<and>
         (Body (Response mock) = VBool b \<longrightarrow>
            rw_Write (snd (invoke ms r h (cur, new_ResponseWriter))) =
              (if b then ''true'' else ''false'')) \<and>
         (Body (Response mock) = VFloat64 x \<longrightarrow>
            rw_Write (snd (invoke ms r h (cur, new_ResponseWriter))) = strconv_FormatFloat P x) \<and>
         (Body (Response mock) = VSlice vs \<longrightarrow>
            rw_Write (snd (invoke ms r h (cur, new_ResponseWriter))) =
              ''['' @ join '' '' (map (fmt_Sprint P) vs) @ '']'') \<and>
         (Body (Response mock) = VMap [(k, VString t)] \<longrightarrow>
            rw_Write (snd (invoke ms r h (cur, new_ResponseWriter))) =
              ''{'' @ json_string k @ '':'' @ json_string t @ ''}'')"
proof -
  from handleMockResponse_Inr[OF assms] obtain body where
    ser: "serialize P (Body (Response mock)) = Inr body"
    and h: "h = MockResponse mock
               (if StatusCode (Response mock) = 0 then 200 else StatusCode (Response mock)) body"
    by blast
  have run: "invoke ms r h (cur, w) =
       (cur, mockResponse mock
               (if StatusCode (Response mock) = 0 then 200 else StatusCode (Response mock))
               body w)" for ms r cur w
    by (simp add: h)
  have written: "rw_Write (snd (invoke ms r h (cur, w))) = rw_Write w @ body" for w
    by (simp add: run mockResponse_Write)
  have fresh: "rw_Write (snd (invoke ms r h (cur, new_ResponseWriter))) = body"
    by (simp add: written new_ResponseWriter_def)
  have kind: "case Body (Response mock) of
               VMap kvs \<Rightarrow> json_encode P (VMap kvs) = Inr body
             | _ \<Rightarrow> body = fmt_Sprint P (Body (Response mock))"
    using ser
    by (cases "Body (Response mock)")
      (auto simp: serialize_def json_Marshal_def split: sum.splits)
  have general: "\<exists>body. rw_Write (snd (invoke ms r h (cur, w))) = rw_Write w @ body \<and>
            (case Body (Response mock) of
               VMap kvs \<Rightarrow> json_encode P (VMap kvs) = Inr body
             | _ \<Rightarrow> body = fmt_Sprint P (Body (Response mock)))"
    using written kind by blast
  have object: "rw_Write (snd (invoke ms r h (cur, new_ResponseWriter))) = ''{\"a\":1}''"
    if a: "strconv_ParseFloat P ''1'' = Some f \<and> json_floatEncoder P f = Some ''1'' \<and>
          decode_interface P (JObject [(''a'', JNumber ''1'')]) = Inr (Body (Response mock))"
  proof -
    from a have p: "strconv_ParseFloat P ''1'' = Some f"
      and e: "json_floatEncoder P f = Some ''1''"
      and d: "decode_interface P (JObject [(''a'', JNumber ''1'')]) = Inr (Body (Response mock))"
      by blast+
    from d have "Body (Response mock) = VMap [(''a'', VFloat64 f)]" by (simp add: p)
    with kind encode_example_body[OF e] show ?thesis
      unfolding fresh by simp
  qed
  have str: "rw_Write (snd (invoke ms r h (cur, new_ResponseWriter))) = s"
    if "decode_interface P (JString s) = Inr (Body (Response mock))" for s
  proof -
    from that have "Body (Response mock) = VString s" by simp
    with kind show ?thesis unfolding fresh by simp
  qed
  have ok: "rw_Write (snd (invoke ms r h (cur, new_ResponseWriter))) = ''ok'' \<and>
            length (rw_Write (snd (invoke ms r h (cur, new_ResponseWriter)))) = 2"
    if "decode_interface P (JString ''ok'') = Inr (Body (Response mock))"
    using str[OF that] by simp
  have bool: "rw_Write (snd (invoke ms r h (cur, new_ResponseWriter))) =
              (if b then ''true'' else ''false'')"
    if "Body (Response mock) = VBool b"
    using that kind unfolding fresh by simp
  have number: "rw_Write (snd (invoke ms r h (cur, new_ResponseWriter))) =
      strconv_FormatFloat P x"
    if "Body (Response mock) = VFloat64 x"
    using that kind unfolding fresh by simp
  have slice: "rw_Write (snd (invoke ms r h (cur, new_ResponseWriter))) =
              ''['' @ join '' '' (map (fmt_Sprint P) vs) @ '']''"
    if "Body (Response mock) = VSlice vs"
    using that kind unfolding fresh by simp
  have strings: "rw_Write (snd (invoke ms r h (cur, new_ResponseWriter))) =
              ''{'' @ json_string k @ '':'' @ json_string t @ ''}''"
    if "Body (Response mock) = VMap [(k, VString t)]"
    using that kind unfolding fresh by auto
  show ?thesis
    by (intro conjI; (rule general | (rule impI,
        (erule object | erule str | erule ok | erule bool | erule number | erule slice |
         erule strings))))
qed

text \<open>
  The two definitions of the example array: the object body is written as \<^verbatim>\<open>{"a":1}\<close>, the
  string body as \<^verbatim>\<open>ok\<close>.
\<close>

theorem body_rendering_witness:
  "\<exists>m1 m2 h1 h2.
     Unmarshal_list example_platform example_array = Inr [m1, m2] \<and>
     handleMockResponse example_platform m1 = Inr h1 \<and>
     handleMockResponse example_platform m2 = Inr h2 \<and>
     rw_Write (snd (invoke [] example_get h1 (0, new_ResponseWriter))) = ''{\"a\":1}'' \<and>
     rw_Write (snd (invoke [] example_get h2 (0, new_ResponseWriter))) = ''ok''"
proof -
  let ?m1 = "\<lparr>Endpoint = ''/items'', Method = ''GET'',
           Response = \<lparr>Body = VMap [(''a'', VFloat64 float64_1)], Headers = [], StatusCode = 0\<rparr>\<rparr>"
  let ?m2 = "\<lparr>Endpoint = ''/items'', Method = ''POST'',
           Response = \<lparr>Body = VString ''ok'', Headers = [], StatusCode = 201\<rparr>\<rparr>"
  let ?h1 = "MockResponse ?m1 200 ''{\"a\":1}''"
  let ?h2 = "MockResponse ?m2 201 ''ok''"
  have h1: "handleMockResponse example_platform ?m1 = Inr ?h1"
    using encode_example_body[OF example_floats(3)]
    by (simp add: handleMockResponse_def serialize_def json_Marshal_def)
  have h2: "handleMockResponse example_platform ?m2 = Inr ?h2"
    by (simp add: handleMockResponse_def serialize_def)
  have d1: "strconv_ParseFloat example_platform ''1'' = Some float64_1 \<and>
      json_floatEncoder example_platform float64_1 = Some ''1'' \<and>
      decode_interface example_platform (JObject [(''a'', JNumber ''1'')]) =
        Inr (Body (Response ?m1))"
    by (simp add: example_floats)
  have d2: "decode_interface example_platform (JString ''ok'') = Inr (Body (Response ?m2))"
    by simp
  from body_rendering[OF h1, THEN conjunct2, THEN conjunct1, rule_format, OF d1,
      of "[]" example_get 0]
  have w1: "rw_Write (snd (invoke [] example_get ?h1 (0, new_ResponseWriter))) = ''{\"a\":1}''" .
  from body_rendering[OF h2, THEN conjunct2, THEN conjunct2, THEN conjunct2, THEN conjunct1,
      rule_format, OF d2, of "[]" example_get 0]
  have w2: "rw_Write (snd (invoke [] example_get ?h2 (0, new_ResponseWriter))) = ''ok''"
    by (rule conjunct1)
  from Unmarshal_example_array h1 h2 w1 w2 show ?thesis by blast
qed

text \<open>
  The body \<^verbatim>\<open>"ok"\<close> is written as two bytes, not three.
\<close>

theorem ok_body_is_two_bytes:
  "decode_interface example_platform (JString ''ok'') = Inr (Body (Response ok_def)) \<and>
   handleMockResponse example_platform ok_def = Inr (MockResponse ok_def 200 ''ok'') \<and>
   rw_Write (snd (invoke [] example_get (MockResponse ok_def 200 ''ok'')
       (0, new_ResponseWriter))) = ''ok'' \<and>
   length (rw_Write (snd (invoke [] example_get (MockResponse ok_def 200 ''ok'')
       (0, new_ResponseWriter)))) = 2 \<and>
   length (rw_Write (snd (invoke [] example_get (MockResponse ok_def 200 ''ok'')
       (0, new_ResponseWriter)))) \<noteq> 3"
  by (simp add: ok_def_def handleMockResponse_def serialize_def mockResponse_Write
      new_ResponseWriter_def)

text \<open>
  Bodies with values inside values, on the platform of the examples: the encoder sorts the
  keys of every map and escapes \<^verbatim>\<open><\<close> and \<^verbatim>\<open>>\<close>; an array body is printed the Go way,
  and so is a map inside it.
\<close>

lemma nested_body_examples:
  "decode_interface example_platform
     (JObject [(''b'', JArray [JNumber ''1.5'', JString ''<x>'', JNull, JBool True]),
               (''a'', JObject [(''k'', JString ''v'')])]) =
     Inr (VMap [(''b'', VSlice [VFloat64 float64_1_5, VString ''<x>'', VNil, VBool True]),
                (''a'', VMap [(''k'', VString ''v'')])])"
  "serialize example_platform
     (VMap [(''b'', VSlice [VFloat64 float64_1_5, VString ''<x>'', VNil, VBool True]),
            (''a'', VMap [(''k'', VString ''v'')])]) =
     Inr (''{\"a\":{\"k\":\"v\"},\"b\":[1.5,\"'' @ [bslash] @ ''u003cx'' @ [bslash] @
          ''u003e\",null,true]}'')"
  "serialize example_platform
     (VSlice [VFloat64 float64_1, VString ''a'', VNil, VMap [(''k'', VBool True)]]) =
     Inr ''[1 a <nil> map[k:true]]''"
  "decode_interface example_platform (JNumber ''1e999'') =
     Inl (UnmarshalTypeError ''number 1e999'' ''float64'')"
  by (simp_all add: example_floats serialize_def json_Marshal_def json_string_def
      json_escape_byte_def dquote_def bslash_def hex_digit_def Let_def example_platform_def
      float64_1_def float64_1_5_def)

text \<open>
  C10. A definition whose body is \<^verbatim>\<open>nil\<close> is answered with the five bytes \<^verbatim>\<open><nil>\<close>; and
  the body is \<^verbatim>\<open>nil\<close> whenever the document says nothing of \<^verbatim>\<open>body\<close> (no such member, or
  \<^verbatim>\<open>null\<close>).
\<close>

theorem absent_body_renders_nil:
  assumes "handleMockResponse P mock = Inr h"
  shows "(Body (Response mock) = VNil \<longrightarrow>
            rw_Write (snd (invoke ms r h (cur, new_ResponseWriter))) = ''<nil>'' \<and>
            length (rw_Write (snd (invoke ms r h (cur, new_ResponseWriter)))) = 5 \<and>
            rw_Write (snd (invoke ms r h (cur, w))) = rw_Write w @ ''<nil>'') \<and>
         (Unmarshal_mock P (JObject kvs) = Inr mock \<and> omits ''body'' kvs \<longrightarrow>
            rw_Write (snd (invoke ms r h (cur, new_ResponseWriter))) = ''<nil>'')"
proof -
  have nil: "rw_Write (snd (invoke ms r h (cur, w))) = rw_Write w @ ''<nil>''"
    if "Body (Response mock) = VNil" for w
    using handleMockResponse_invoke[OF assms, of ms r cur w] that
    by (auto simp: mockResponse_Write serialize_def)
  have absent: "Body (Response mock) = VNil"
    if "Unmarshal_mock P (JObject kvs) = Inr mock \<and> omits ''body'' kvs"
    using that Unmarshal_mock_omits_body by blast
  show ?thesis
    using nil[of w] nil[of new_ResponseWriter] absent
    by (auto simp: new_ResponseWriter_def)
qed

theorem absent_body_renders_nil_witness:
  "\<exists>mock h.
     Unmarshal_mock example_platform (JObject example_members) = Inr mock \<and>
     omits ''body'' example_members \<and>
     handleMockResponse example_platform mock = Inr h \<and>
     rw_Write (snd (invoke [] example_get h (0, new_ResponseWriter))) = ''<nil>''"
proof -
  let ?mock = "\<lparr>Endpoint = ''/ping'', Method = ''GET'',
          Response = \<lparr>Body = VNil, Headers = [(''X-Mock'', ''1'')], StatusCode = 0\<rparr>\<rparr>"
  let ?h = "MockResponse ?mock 200 ''<nil>''"
  have h: "handleMockResponse example_platform ?mock = Inr ?h"
    by (simp add: handleMockResponse_def serialize_def)
  have doc: "Unmarshal_mock example_platform (JObject example_members) = Inr ?mock"
    using Unmarshal_example_object[of example_platform] by (simp add: example_object_def)
  from absent_body_renders_nil[OF h, of "[]" example_get 0 new_ResponseWriter example_members]
    doc example_members_omit(2)
  have "rw_Write (snd (invoke [] example_get ?h (0, new_ResponseWriter))) = ''<nil>''"
    by blast
  with h doc example_members_omit(2) show ?thesis
    by (intro exI[of _ ?mock] exI[of _ ?h]) simp
qed

section \<open>Properties of the loader\<close>

lemma decode_elements_iff:
  "decode_elements P vs = Inr ds \<longleftrightarrow> list_all2 (\<lambda>v d. Unmarshal_mock P v = Inr d) vs ds"
proof (induction vs arbitrary: ds)
  case Nil
  then show ?case by auto
next
  case (Cons v vs)
  show ?case
  proof (cases "decode_mock P v zero_MockDefinition")
    case (Inl err)
    then show ?thesis by (auto simp: Unmarshal_mock_def list_all2_Cons1)
  next
    case (Inr mock)
    show ?thesis
    proof (cases "decode_elements P vs")
      case (Inl err)
      with Inr Cons.IH show ?thesis
        by (auto simp: Unmarshal_mock_def list_all2_Cons1)
    next
      case mocks: (Inr mocks)
      with Inr Cons.IH show ?thesis
        by (auto simp: Unmarshal_mock_def list_all2_Cons1)
    qed
  qed
qed

lemma Unmarshal_mock_JArray:
  "Unmarshal_mock P (JArray vs) = Inl (UnmarshalTypeError ''array'' ''main.MockDefinition'')"
  by (simp add: Unmarshal_mock_def decode_mock_def json_kind_def)

lemma Unmarshal_list_JObject:
  "Unmarshal_list P (JObject kvs) = Inl (UnmarshalTypeError ''object'' ''[]main.MockDefinition'')"
  by (simp add: Unmarshal_list_def json_kind_def)

lemma loadMockFromJson_valid:
  assumes "os_ReadFile P filepath = Inr content" "json_parse P content = Some doc"
  shows "loadMockFromJson P filepath =
           (case Unmarshal_list P doc of
              Inr listOfMocks \<Rightarrow> Inr listOfMocks
            | Inl _ \<Rightarrow>
                (case Unmarshal_mock P doc of Inr mock \<Rightarrow> Inr [mock] | Inl err \<Rightarrow> Inl err))"
  using assms by (simp add: loadMockFromJson_def split: sum.splits)

text \<open>The decoder fails with a type error and with nothing else.\<close>

lemma fold_result_Inl:
  assumes "fold_result f xs s = Inl err"
  shows "\<exists>x t. x \<in> set xs \<and> f x t = Inl err"
  using assms
proof (induction xs arbitrary: s)
  case Nil
  then show ?case by simp
next
  case (Cons x xs)
  show ?case
  proof (cases "f x s")
    case (Inl e)
    with Cons.prems show ?thesis by auto
  next
    case (Inr t)
    with Cons.prems have "fold_result f xs t = Inl err" by simp
    from Cons.IH[OF this] show ?thesis by auto
  qed
qed

lemma all_or_error_Inl:
  assumes "all_or_error xs = Inl err"
  shows "Inl err \<in> set xs"
  using assms by (induction xs) (auto split: sum.splits)

lemma decode_interface_Inl:
  "decode_interface P v = Inl err \<Longrightarrow> \<exists>a b. err = UnmarshalTypeError a b"
proof (induction P v arbitrary: err rule: decode_interface.induct)
  case (5 P vs)
  from "5.prems" have "all_or_error (map (decode_interface P) vs) = Inl err"
    by (simp split: sum.splits)
  from all_or_error_Inl[OF this] obtain v where "v \<in> set vs" "decode_interface P v = Inl err"
    by auto
  with "5.IH" show ?case by blast
next
  case (6 P kvs)
  from "6.prems" have "all_or_error
      (map (\<lambda>(k, v). case decode_interface P v of
                        Inl err \<Rightarrow> Inl err
                      | Inr x \<Rightarrow> Inr (k, x)) kvs) = Inl err"
    by (simp split: sum.splits)
  from all_or_error_Inl[OF this] obtain k v where
    "(k, v) \<in> set kvs" "decode_interface P v = Inl err"
    by (auto split: sum.splits)
  with "6.IH" show ?case by blast
qed (auto split: option.splits)

lemma decode_string_Inl:
  "decode_string v old = Inl err \<Longrightarrow> \<exists>a b. err = UnmarshalTypeError a b"
  by (auto simp: decode_string_def split: json.splits)

lemma decode_int_Inl:
  "decode_int v old = Inl err \<Longrightarrow> \<exists>a b. err = UnmarshalTypeError a b"
  by (auto simp: decode_int_def split: json.splits option.splits)

lemma decode_map_Inl:
  assumes "decode_map v old = Inl err"
  shows "\<exists>a b. err = UnmarshalTypeError a b"
proof (cases v)
  case (JObject kvs)
  with assms have "fold_result decode_map_entry kvs old = Inl err"
    by (simp add: decode_map_def)
  from fold_result_Inl[OF this] obtain kv m where "decode_map_entry kv m = Inl err" by blast
  then show ?thesis
    by (auto simp: decode_map_entry_def split: sum.splits dest: decode_string_Inl)
qed (use assms in \<open>auto simp: decode_map_def\<close>)

lemma decode_response_Inl:
  assumes "decode_response P v old = Inl err"
  shows "\<exists>a b. err = UnmarshalTypeError a b"
proof (cases v)
  case (JObject kvs)
  with assms have "fold_result (decode_response_field P) kvs old = Inl err"
    by (simp add: decode_response_def)
  from fold_result_Inl[OF this] obtain kv m where "decode_response_field P kv m = Inl err"
    by blast
  then show ?thesis
    by (auto simp: decode_response_field_def Let_def split: if_splits sum.splits
        dest: decode_map_Inl decode_int_Inl decode_interface_Inl)
qed (use assms in \<open>auto simp: decode_response_def\<close>)

lemma decode_mock_Inl:
  assumes "decode_mock P v old = Inl err"
  shows "\<exists>a b. err = UnmarshalTypeError a b"
proof (cases v)
  case (JObject kvs)
  with assms have "fold_result (decode_mock_field P) kvs old = Inl err"
    by (simp add: decode_mock_def)
  from fold_result_Inl[OF this] obtain kv m where "decode_mock_field P kv m = Inl err"
    by blast
  then show ?thesis
    by (auto simp: decode_mock_field_def Let_def split: if_splits sum.splits
        dest: decode_string_Inl decode_response_Inl)
qed (use assms in \<open>auto simp: decode_mock_def\<close>)

lemma loadMockFromJson_Inl:
  assumes "loadMockFromJson P filepath = Inl err"
  shows "err \<noteq> MaxDirectoryCount n"
  using assms
  by (auto simp: loadMockFromJson_def Unmarshal_mock_def
      split: sum.splits option.splits dest: decode_mock_Inl)

lemma range_entries_Return:
  "range_entries P dirpath entries (dirStack, mocks) = Return err \<Longrightarrow>
   err \<noteq> MaxDirectoryCount n"
proof (induction entries arbitrary: dirStack mocks)
  case Nil
  then show ?case by simp
next
  case (Cons entry entries)
  then show ?case
    by (auto split: if_splits option.splits sum.splits dest: loadMockFromJson_Inl)
qed

lemma range_entries_Continue:
  "range_entries P dirpath entries (dirStack, mocks) = Continue (dirStack', mocks') \<Longrightarrow>
   length dirStack \<le> MAX_DIRECTORY_COUNT \<Longrightarrow> length dirStack' \<le> MAX_DIRECTORY_COUNT"
proof (induction entries arbitrary: dirStack mocks)
  case Nil
  then show ?case by simp
next
  case (Cons entry entries)
  show ?case
  proof (cases "IsDir entry")
    case True
    with Cons.prems(1) obtain q where q:
      "chan_send MAX_DIRECTORY_COUNT (path_Join P dirpath (Name entry)) dirStack = Some q"
      "range_entries P dirpath entries (q, mocks) = Continue (dirStack', mocks')"
      by (auto split: option.splits)
    from q(1) have "length q \<le> MAX_DIRECTORY_COUNT"
      by (auto simp: chan_send_def split: if_splits)
    from Cons.IH[OF q(2) this] show ?thesis .
  next
    case False
    with Cons.prems Cons.IH show ?thesis
      by (auto split: if_splits sum.splits)
  qed
qed

text \<open>
  The channel never holds more than its capacity, so the test of line 179 is never true:
  \<^verbatim>\<open>loadMocks\<close> does not return the error of line 180, on any tree.
\<close>

lemma loadMocks_loop_never_limit_error:
  assumes "loadMocks_loop P dirStack mocks = Some res"
  shows "length dirStack \<le> MAX_DIRECTORY_COUNT \<longrightarrow> res \<noteq> Returns (Inl (MaxDirectoryCount n))"
proof (rule loadMocks_loop.raw_induct[where
      Pa = "\<lambda>x y. length (snd (fst x)) \<le> MAX_DIRECTORY_COUNT \<longrightarrow>
                   y \<noteq> Returns (Inl (MaxDirectoryCount n))"
      and P = P and dirStack = dirStack and mocks = mocks and y = res, simplified])
  show "loadMocks_loop P dirStack mocks = Some res" by fact
next
  fix f :: "platform \<Rightarrow> string list \<Rightarrow> MockDefinition list \<Rightarrow> load_result option"
    and P dirStack mocks res
  assume IH: "\<And>P dirStack mocks y. f P dirStack mocks = Some y \<Longrightarrow>
      length dirStack \<le> MAX_DIRECTORY_COUNT \<longrightarrow> y \<noteq> Returns (Inl (MaxDirectoryCount n))"
  assume body: "(if dirStack \<noteq> []
      then if MAX_DIRECTORY_COUNT < length dirStack
           then Some (Returns (Inl (MaxDirectoryCount MAX_DIRECTORY_COUNT)))
           else case os_ReadDir P (hd dirStack) of
                Inl err \<Rightarrow> Some (Returns (Inl (OsError err)))
                | Inr entries \<Rightarrow>
                    case range_entries P (hd dirStack) entries
                          (tl dirStack, mocks) of
                    Continue (dirStack', mocks') \<Rightarrow> f P dirStack' mocks'
                    | Return err \<Rightarrow> Some (Returns (Inl err))
                    | Blocked \<Rightarrow> Some Deadlock
      else Some (Returns (Inr mocks))) = Some res"
  show "length dirStack \<le> MAX_DIRECTORY_COUNT \<longrightarrow> res \<noteq> Returns (Inl (MaxDirectoryCount n))"
  proof
    assume len: "length dirStack \<le> MAX_DIRECTORY_COUNT"
    show "res \<noteq> Returns (Inl (MaxDirectoryCount n))"
    proof (cases "dirStack = []")
      case True
      with body show ?thesis by auto
    next
      case False
      show ?thesis
      proof (cases "os_ReadDir P (hd dirStack)")
        case (Inl err)
        with body False len show ?thesis by auto
      next
        case (Inr entries)
        show ?thesis
        proof (cases "range_entries P (hd dirStack) entries (tl dirStack, mocks)")
          case (Continue st)
          obtain q m where st: "st = (q, m)" by (cases st)
          from len have "length (tl dirStack) \<le> MAX_DIRECTORY_COUNT" by simp
          with range_entries_Continue Continue st
          have "length q \<le> MAX_DIRECTORY_COUNT" by blast
          moreover from body False len Inr Continue st have "f P q m = Some res" by simp
          ultimately show ?thesis using IH by blast
        next
          case (Return err)
          with range_entries_Return have "err \<noteq> MaxDirectoryCount n" by blast
          with body False len Inr Return show ?thesis by auto
        next
          case Blocked
          with body False len Inr show ?thesis by auto
        qed
      qed
    qed
  qed
qed

lemma loadMocks_never_limit_error:
  "loadMocks P dirpath \<noteq> Some (Returns (Inl (MaxDirectoryCount n)))"
proof
  assume "loadMocks P dirpath = Some (Returns (Inl (MaxDirectoryCount n)))"
  then have "loadMocks_loop P [dirpath] [] = Some (Returns (Inl (MaxDirectoryCount n)))"
    by (simp add: loadMocks_def chan_send_def MAX_DIRECTORY_COUNT_def)
  from loadMocks_loop_never_limit_error[OF this, of n] show False
    by (simp add: MAX_DIRECTORY_COUNT_def)
qed

section \<open>The specification of the loader\<close>

lemma example_contents_differ:
  "items_json \<noteq> ping_json" "items_json \<noteq> text_json" "ping_json \<noteq> text_json"
  by (simp_all add: items_json_def ping_json_def text_json_def)

text \<open>
  C6. For a file that is valid JSON, the result of the load is that of the array shape
  when the document decodes as an array of definitions, else that of the single shape as
  a list of one, else the error of the single shape. An array gives one definition for
  each element, each decoded as a single definition would be, and no result when one of
  them does not decode; an object gives its definition alone.
\<close>

theorem two_parse_shapes:
  assumes "os_ReadFile P filepath = Inr content"
    and "json_parse P content = Some doc"
  shows "loadMockFromJson P filepath =
           (case Unmarshal_list P doc of
              Inr listOfMocks \<Rightarrow> Inr listOfMocks
            | Inl _ \<Rightarrow>
                (case Unmarshal_mock P doc of Inr mock \<Rightarrow> Inr [mock] | Inl err \<Rightarrow> Inl err)) \<and>
         (doc = JArray vs \<longrightarrow>
            (loadMockFromJson P filepath = Inr ds \<longleftrightarrow>
               list_all2 (\<lambda>v d. Unmarshal_mock P v = Inr d) vs ds) \<and>
            ((\<exists>ds. loadMockFromJson P filepath = Inr ds) \<or>
             (\<exists>err. loadMockFromJson P filepath = Inl err \<and> Unmarshal_mock P doc = Inl err))) \<and>
         (doc = JObject kvs \<longrightarrow>
            (loadMockFromJson P filepath = Inr ds \<longleftrightarrow>
               (\<exists>mock. Unmarshal_mock P doc = Inr mock \<and> ds = [mock]))) \<and>
         (Unmarshal_list P doc = Inl e1 \<and> Unmarshal_mock P doc = Inl e2 \<longrightarrow>
            loadMockFromJson P filepath = Inl e2)"
proof (intro conjI impI)
  note load = loadMockFromJson_valid[OF assms]
  show "loadMockFromJson P filepath =
           (case Unmarshal_list P doc of
              Inr listOfMocks \<Rightarrow> Inr listOfMocks
            | Inl _ \<Rightarrow>
                (case Unmarshal_mock P doc of Inr mock \<Rightarrow> Inr [mock] | Inl err \<Rightarrow> Inl err))"
    by (rule load)
  show "loadMockFromJson P filepath = Inl e2"
    if "Unmarshal_list P doc = Inl e1 \<and> Unmarshal_mock P doc = Inl e2"
    using that load by simp
  show "loadMockFromJson P filepath = Inr ds \<longleftrightarrow>
        (\<exists>mock. Unmarshal_mock P doc = Inr mock \<and> ds = [mock])"
    if "doc = JObject kvs"
    using that load Unmarshal_list_JObject[of P kvs] by (auto split: sum.splits)
  show "loadMockFromJson P filepath = Inr ds \<longleftrightarrow>
        list_all2 (\<lambda>v d. Unmarshal_mock P v = Inr d) vs ds"
    if "doc = JArray vs"
  proof (cases "decode_elements P vs")
    case (Inl err)
    with that load Unmarshal_mock_JArray[of P vs] decode_elements_iff[of P vs ds] show ?thesis
      by (simp add: Unmarshal_list_def)
  next
    case (Inr mocks)
    with that load decode_elements_iff[of P vs ds] show ?thesis
      by (simp add: Unmarshal_list_def)
  qed
  show "(\<exists>ds. loadMockFromJson P filepath = Inr ds) \<or>
        (\<exists>err. loadMockFromJson P filepath = Inl err \<and> Unmarshal_mock P doc = Inl err)"
    if "doc = JArray vs"
    using that load Unmarshal_mock_JArray[of P vs] by (auto split: sum.splits)
qed

text \<open>
  The array file gives its two definitions, the object file its one, the text file an
  error; and the two definitions of the array, which share an endpoint, are both reached:
  \<^verbatim>\<open>GET\<close> by the first (status 200, body \<^verbatim>\<open>{"a":1}\<close>), \<^verbatim>\<open>POST\<close> by the second (status
  201, body \<^verbatim>\<open>ok\<close>).
\<close>

theorem two_parse_shapes_witness:
  "\<exists>m1 m2 m3 routeChain mux.
     loadMockFromJson example_platform ''mocks/items.json'' = Inr [m1, m2] \<and>
     loadMockFromJson example_platform ''mocks/ping.json'' = Inr [m3] \<and>
     loadMockFromJson example_platform ''other/text.json'' =
       Inl (UnmarshalTypeError ''string'' ''main.MockDefinition'') \<and>
     main_routes example_platform [m1, m2] (Map.empty, []) = Inr (routeChain, mux) \<and>
     mux = [(''/items'', HandlerFunc m1)] \<and>
     handler routeChain (HandlerFunc m1) new_ResponseWriter
         \<lparr>r_Method = ''GET'', r_Pattern = ''/items''\<rparr> =
       \<lparr>rw_Header = {#(''Content-Type'', ''application/json''), (''Server'', ''mock-server'')#},
        rw_WriteHeader = [200], rw_Write = ''{\"a\":1}''\<rparr> \<and>
     handler routeChain (HandlerFunc m1) new_ResponseWriter
         \<lparr>r_Method = ''POST'', r_Pattern = ''/items''\<rparr> =
       \<lparr>rw_Header = {#(''Content-Type'', ''application/json''), (''Server'', ''mock-server'')#},
        rw_WriteHeader = [201], rw_Write = ''ok''\<rparr>"
proof -
  let ?m1 = "\<lparr>Endpoint = ''/items'', Method = ''GET'',
           Response = \<lparr>Body = VMap [(''a'', VFloat64 float64_1)], Headers = [], StatusCode = 0\<rparr>\<rparr>"
  let ?m2 = "\<lparr>Endpoint = ''/items'', Method = ''POST'',
           Response = \<lparr>Body = VString ''ok'', Headers = [], StatusCode = 201\<rparr>\<rparr>"
  let ?m3 = "\<lparr>Endpoint = ''/ping'', Method = ''GET'',
          Response = \<lparr>Body = VNil, Headers = [(''X-Mock'', ''1'')], StatusCode = 0\<rparr>\<rparr>"
  have f1: "os_ReadFile example_platform ''mocks/items.json'' = Inr items_json"
    "json_parse example_platform items_json = Some example_array"
    by (simp_all add: example_platform_def)
  have f2: "os_ReadFile example_platform ''mocks/ping.json'' = Inr ping_json"
    "json_parse example_platform ping_json = Some example_object"
    using example_contents_differ by (simp_all add: example_platform_def)
  have f3: "os_ReadFile example_platform ''other/text.json'' = Inr text_json"
    "json_parse example_platform text_json = Some (JString ''just text'')"
    using example_contents_differ by (simp_all add: example_platform_def)
  have l1: "loadMockFromJson example_platform ''mocks/items.json'' = Inr [?m1, ?m2]"
    using two_parse_shapes[OF f1, THEN conjunct1] Unmarshal_example_array by simp
  have l2: "loadMockFromJson example_platform ''mocks/ping.json'' = Inr [?m3]"
    using two_parse_shapes[OF f2, THEN conjunct1] Unmarshal_example_object[of example_platform]
    by (simp add: example_object_def example_members_def Unmarshal_list_def json_kind_def)
  have l3: "loadMockFromJson example_platform ''other/text.json'' =
       Inl (UnmarshalTypeError ''string'' ''main.MockDefinition'')"
    using two_parse_shapes[OF f3, THEN conjunct1]
    by (simp add: Unmarshal_list_def Unmarshal_mock_def decode_mock_def json_kind_def)
  let ?h1 = "MockResponse ?m1 200 ''{\"a\":1}''"
  let ?h2 = "MockResponse ?m2 201 ''ok''"
  let ?ms = "[\<lparr>cm_Method = ''GET'', cm_Handler = ?h1\<rparr>, \<lparr>cm_Method = ''POST'', cm_Handler = ?h2\<rparr>]"
  let ?rc = "[''/items'' \<mapsto> \<lparr>rc_Handler = HandlerFunc ?m1, rc_Middleware = ?ms\<rparr>]"
  have h1: "handleMockResponse example_platform ?m1 = Inr ?h1"
    using encode_example_body[OF example_floats(3)]
    by (simp add: handleMockResponse_def serialize_def json_Marshal_def)
  have h2: "handleMockResponse example_platform ?m2 = Inr ?h2"
    by (simp add: handleMockResponse_def serialize_def)
  have acc: "mux_accepts example_platform [] ''/items''"
    by (simp add: example_platform_def)
  have run: "main_routes example_platform [?m1, ?m2] (Map.empty, []) =
      Inr (?rc, [(''/items'', HandlerFunc ?m1)])"
    using h1 h2 acc by (simp add: generateMockHandler_def HandleFunc_def Let_def)
  have ms: "Middleware_at ?rc ''/items'' = ?ms" by (simp add: Middleware_at_def)
  have get: "handler ?rc (HandlerFunc ?m1) new_ResponseWriter
         \<lparr>r_Method = ''GET'', r_Pattern = ''/items''\<rparr> =
       \<lparr>rw_Header = {#(''Content-Type'', ''application/json''), (''Server'', ''mock-server'')#},
        rw_WriteHeader = [200], rw_Write = ''{\"a\":1}''\<rparr>"
    using first_match_from_start[of 0 ?ms "\<lparr>r_Method = ''GET'', r_Pattern = ''/items''\<rparr>"
        new_ResponseWriter]
    by (simp add: ms mockResponse_def new_ResponseWriter_def Header_Add_def WriteHeader_def
        Write_def SERVER_NAME_def CanonicalMIMEHeaderKey_examples)
  have post: "handler ?rc (HandlerFunc ?m1) new_ResponseWriter
         \<lparr>r_Method = ''POST'', r_Pattern = ''/items''\<rparr> =
       \<lparr>rw_Header = {#(''Content-Type'', ''application/json''), (''Server'', ''mock-server'')#},
        rw_WriteHeader = [201], rw_Write = ''ok''\<rparr>"
    using first_match_from_start[of 1 ?ms "\<lparr>r_Method = ''POST'', r_Pattern = ''/items''\<rparr>"
        new_ResponseWriter]
    by (simp add: ms mockResponse_def new_ResponseWriter_def Header_Add_def WriteHeader_def
        Write_def SERVER_NAME_def CanonicalMIMEHeaderKey_examples)
  from l1 l2 l3 run get post show ?thesis by blast
qed

text \<open>
  The whole directory loads to the three definitions, in the order the files are visited.
\<close>

lemma example_platform_loads:
  "loadMocks example_platform ''mocks'' =
     Some (Returns (Inr
       [\<lparr>Endpoint = ''/items'', Method = ''GET'',
          Response = \<lparr>Body = VMap [(''a'', VFloat64 float64_1)], Headers = [], StatusCode = 0\<rparr>\<rparr>,
        \<lparr>Endpoint = ''/items'', Method = ''POST'',
          Response = \<lparr>Body = VString ''ok'', Headers = [], StatusCode = 201\<rparr>\<rparr>,
        \<lparr>Endpoint = ''/ping'', Method = ''GET'',
          Response = \<lparr>Body = VNil, Headers = [(''X-Mock'', ''1'')], StatusCode = 0\<rparr>\<rparr>]))"
proof -
  have parse: "json_parse example_platform items_json = Some example_array"
    "json_parse example_platform ping_json = Some example_object"
    "os_ReadFile example_platform ''mocks/items.json'' = Inr items_json"
    "os_ReadFile example_platform ''mocks/ping.json'' = Inr ping_json"
    using example_contents_differ by (simp_all add: example_platform_def)
  have files:
    "loadMockFromJson example_platform ''mocks/items.json'' =
       Inr [\<lparr>Endpoint = ''/items'', Method = ''GET'',
          Response = \<lparr>Body = VMap [(''a'', VFloat64 float64_1)], Headers = [], StatusCode = 0\<rparr>\<rparr>,
        \<lparr>Endpoint = ''/items'', Method = ''POST'',
          Response = \<lparr>Body = VString ''ok'', Headers = [], StatusCode = 201\<rparr>\<rparr>]"
    "loadMockFromJson example_platform ''mocks/ping.json'' =
       Inr [\<lparr>Endpoint = ''/ping'', Method = ''GET'',
          Response = \<lparr>Body = VNil, Headers = [(''X-Mock'', ''1'')], StatusCode = 0\<rparr>\<rparr>]"
    using Unmarshal_example_array Unmarshal_example_object[of example_platform]
    by (simp_all add: loadMockFromJson_def parse Unmarshal_list_JObject example_object_def)
  have dir: "os_ReadDir example_platform ''mocks'' =
      Inr [\<lparr>Name = ''items.json'', IsDir = False\<rparr>,
           \<lparr>Name = ''notes.txt'', IsDir = False\<rparr>,
           \<lparr>Name = ''ping.json'', IsDir = False\<rparr>]"
    "path_Join example_platform = (\<lambda>dir name. dir @ ''/'' @ name)"
    by (simp_all add: example_platform_def)
  show ?thesis
    unfolding loadMocks_def
    apply (simp add: chan_send_def MAX_DIRECTORY_COUNT_def)
    apply (subst loadMocks_loop.simps)
    apply (simp add: dir files filepath_Ext_def MAX_DIRECTORY_COUNT_def)
    apply (subst loadMocks_loop.simps)
    apply simp
    done
qed

text \<open>
  C2. The specification has a tree with more than 20 directories pending fail the load
  with the error of line 180. The code does not do that. The channel \<^verbatim>\<open>dirStack\<close> has
  capacity \<^verbatim>\<open>MAX_DIRECTORY_COUNT\<close>, so its length never exceeds that number and the test of
  line 179 never holds (\<open>loadMocks_never_limit_error\<close>, on every tree); the send of line
  192 that would make a 21st directory pending blocks instead, for ever. On the root with
  21 subdirectories the load ends in that blocked send and returns nothing, neither the
  error nor a result.
\<close>

theorem wide_tree_blocks:
  "loadMocks wide_tree ''mocks'' = Some Deadlock \<and>
   loadMocks wide_tree ''mocks'' \<noteq>
     Some (Returns (Inl (MaxDirectoryCount MAX_DIRECTORY_COUNT)))"
proof -
  have "loadMocks wide_tree ''mocks'' = Some Deadlock"
    unfolding loadMocks_def
    apply (simp add: chan_send_def MAX_DIRECTORY_COUNT_def)
    apply (subst loadMocks_loop.simps)
    apply (simp add: chan_send_def MAX_DIRECTORY_COUNT_def wide_tree_def upt_rec)
    done
  then show ?thesis by simp
qed

text \<open>
  With 20 subdirectories the channel is full but no send blocks, and the load returns (no
  files, so no definitions).
\<close>

lemma full_tree_loads: "loadMocks full_tree ''mocks'' = Some (Returns (Inr []))"
  unfolding loadMocks_def
  apply (simp add: chan_send_def MAX_DIRECTORY_COUNT_def)
  apply (subst loadMocks_loop.simps)
  apply (simp add: chan_send_def MAX_DIRECTORY_COUNT_def full_tree_def upt_rec decimal.simps)
  apply (subst loadMocks_loop.simps, simp add: MAX_DIRECTORY_COUNT_def)+
  done

end
